theory Spec2Isabelle
  imports Complex_Main "HOL-Library.FSet"
begin

section \<open>Data model (app/models.py)\<close>

text \<open>
  The protocol features of \<^verbatim>\<open>class FeatureToggle(str, Enum)\<close>, with the string value
  of each member.
\<close>

datatype FeatureToggle =
  CORE | RESEND | TTL | BACKPRESSURE | MULTISTREAM | PULL | PAUSE | STATELESS | FEC | METRICS

fun feature_value :: "FeatureToggle \<Rightarrow> string" where
  "feature_value CORE = ''core''"
| "feature_value RESEND = ''resend''"
| "feature_value TTL = ''ttl''"
| "feature_value BACKPRESSURE = ''backpressure''"
| "feature_value MULTISTREAM = ''multistream''"
| "feature_value PULL = ''pull''"
| "feature_value PAUSE = ''pause''"
| "feature_value STATELESS = ''stateless''"
| "feature_value FEC = ''fec''"
| "feature_value METRICS = ''metrics''"

text \<open>
  \<^verbatim>\<open>FeatureToggle(s)\<close>: the member whose value is \<open>s\<close>; \<open>None\<close> stands for the
  \<^verbatim>\<open>ValueError\<close> the enum raises on any other string.
\<close>

definition FeatureToggle_of :: "string \<Rightarrow> FeatureToggle option" where
  "FeatureToggle_of s =
     (if s = ''core'' then Some CORE
      else if s = ''resend'' then Some RESEND
      else if s = ''ttl'' then Some TTL
      else if s = ''backpressure'' then Some BACKPRESSURE
      else if s = ''multistream'' then Some MULTISTREAM
      else if s = ''pull'' then Some PULL
      else if s = ''pause'' then Some PAUSE
      else if s = ''stateless'' then Some STATELESS
      else if s = ''fec'' then Some FEC
      else if s = ''metrics'' then Some METRICS
      else None)"

datatype StreamInfo = StreamInfo (stream_info_id: string)

text \<open>
  \<^verbatim>\<open>StreamState\<close> and \<^verbatim>\<open>TransmissionState\<close>. Both classes call their first field
  \<^verbatim>\<open>id\<close>; the fields are \<open>id_ss\<close> and \<open>id_ts\<close> here. A Python set of ints is a finite
  set of unbounded integers, a dict is a map, and the \<^verbatim>\<open>float\<close> timestamps read from
  \<^verbatim>\<open>time.time()\<close> are real numbers.
\<close>

record StreamState =
  id_ss :: string
  received_chunks :: "int fset"
  total_chunks :: "int option"

record TransmissionState =
  id_ts :: string
  client_id :: string
  streams :: "string \<rightharpoonup> StreamState"
  features_enabled :: "FeatureToggle list"
  ttl_seconds :: "int option"
  created_at :: real
  last_received_time :: real
  session_type :: string
  max_packet_size :: "int option"
  chunk_size :: "int option"

text \<open>
  Python truthiness of an \<^verbatim>\<open>Optional[int]\<close> and of an \<^verbatim>\<open>Optional[str]\<close>:
  \<^verbatim>\<open>None\<close>, \<^verbatim>\<open>0\<close> and the empty string are false.
\<close>

definition truthy_int :: "int option \<Rightarrow> bool" where
  "truthy_int v = (case v of None \<Rightarrow> False | Some n \<Rightarrow> n \<noteq> 0)"

definition truthy_str :: "string option \<Rightarrow> bool" where
  "truthy_str v = (case v of None \<Rightarrow> False | Some s \<Rightarrow> s \<noteq> [])"

subsection \<open>The status snapshot: \<^verbatim>\<open>TransmissionState.get_status\<close>\<close>

record StreamStatus =
  received :: "int list"
  missing :: "int list"
  total_st :: "int option"

record Status =
  transmission_id :: string
  status_streams :: "string \<rightharpoonup> StreamStatus"
  ttl :: "int option"
  alive :: bool
  status_last_received_time :: real

text \<open>
  The body of the loop over \<^verbatim>\<open>self.streams.items()\<close>: \<^verbatim>\<open>sorted(list(s))\<close> of a set
  is its ascending list, \<^verbatim>\<open>max\<close> of the non-empty list its greatest element, and
  \<^verbatim>\<open>set(range(max_received + 1))\<close> the integers from \<open>0\<close> to \<open>max_received\<close>.
\<close>

definition stream_status :: "StreamState \<Rightarrow> StreamStatus" where
  "stream_status stream_state =
     (let received_list = sorted_list_of_fset (received_chunks stream_state);
          max_received = (if received_list \<noteq> [] then Max (set received_list) else - 1);
          missing_list =
            (if max_received \<ge> 0
             then sorted_list_of_fset
                    (fset_of_list [0..max_received] |-| received_chunks stream_state)
             else [])
      in \<lparr>received = received_list, missing = missing_list,
          total_st = total_chunks stream_state\<rparr>)"

text \<open>
  \<open>now\<close> is the value \<^verbatim>\<open>time.time()\<close> returns; the source reads the clock only when
  \<^verbatim>\<open>self.ttl_seconds\<close> is truthy.
\<close>

definition get_status :: "TransmissionState \<Rightarrow> real \<Rightarrow> Status" where
  "get_status self now =
     \<lparr>transmission_id = id_ts self,
      status_streams = (\<lambda>stream_id. map_option stream_status (streams self stream_id)),
      ttl = (if truthy_int (ttl_seconds self) then ttl_seconds self else None),
      alive =
        (case ttl_seconds self of
           None \<Rightarrow> True
         | Some t \<Rightarrow> if t \<noteq> 0 then now - created_at self \<le> real_of_int t else True),
      status_last_received_time = last_received_time self\<rparr>"

section \<open>The in-memory store (app/storage.py)\<close>

text \<open>
  \<^verbatim>\<open>InMemoryTransmissionStorage._store\<close> is a dict from transmission id to state. The
  handlers run one at a time here; the lock around each operation is not modelled.
\<close>

type_synonym storage = "string \<rightharpoonup> TransmissionState"

definition storage_create :: "TransmissionState \<Rightarrow> storage \<Rightarrow> storage" where
  "storage_create transmission store = store(id_ts transmission \<mapsto> transmission)"

definition storage_get :: "storage \<Rightarrow> string \<Rightarrow> TransmissionState option" where
  "storage_get store tid = store tid"

definition storage_update :: "TransmissionState \<Rightarrow> storage \<Rightarrow> storage \<times> bool" where
  "storage_update transmission store =
     (if id_ts transmission \<in> dom store
      then (store(id_ts transmission \<mapsto> transmission), True)
      else (store, False))"

definition storage_delete :: "string \<Rightarrow> storage \<Rightarrow> storage \<times> bool" where
  "storage_delete tid store =
     (if tid \<in> dom store then (store(tid := None), True) else (store, False))"

text \<open>
  \<^verbatim>\<open>storage.get\<close> returns a reference to the stored object, and the handlers assign to
  its fields before they call \<^verbatim>\<open>storage.update\<close>: the object under the key it was
  fetched from changes at the assignment already.
\<close>

definition mutate_in_place :: "string \<Rightarrow> TransmissionState \<Rightarrow> storage \<Rightarrow> storage" where
  "mutate_in_place tid transmission store = store(tid \<mapsto> transmission)"

section \<open>Request handlers (app/handlers.py)\<close>

subsection \<open>Strings\<close>

text \<open>
  Header values are decoded one character per byte, so a character is a \<open>char\<close>.
  \<^verbatim>\<open>str.isspace\<close> on the characters below 256, \<^verbatim>\<open>str.strip()\<close>, \<^verbatim>\<open>str.split(',')\<close>,
  \<^verbatim>\<open>sep.join(xs)\<close> and \<^verbatim>\<open>str(n)\<close> of an int.
\<close>

definition isspace :: "char \<Rightarrow> bool" where
  "isspace c = ((of_char c :: nat) \<in> {9, 10, 11, 12, 13, 28, 29, 30, 31, 32, 133, 160})"

definition strip :: "string \<Rightarrow> string" where
  "strip s = rev (dropWhile isspace (rev (dropWhile isspace s)))"

fun split_comma :: "string \<Rightarrow> string list" where
  "split_comma [] = [[]]"
| "split_comma (c # cs) =
     (if c = CHR '','' then [] # split_comma cs
      else (case split_comma cs of w # ws \<Rightarrow> (c # w) # ws | [] \<Rightarrow> [[c]]))"

fun join :: "string \<Rightarrow> string list \<Rightarrow> string" where
  "join sep [] = []"
| "join sep [x] = x"
| "join sep (x # y # ys) = x @ sep @ join sep (y # ys)"

function str_nat :: "nat \<Rightarrow> string" where
  "str_nat n =
     (if n < 10 then [char_of (48 + n)]
      else str_nat (n div 10) @ [char_of (48 + n mod 10)])"
  by pat_completeness auto
termination
  by (relation "measure (\<lambda>n. n)") auto

definition str_int :: "int \<Rightarrow> string" where
  "str_int i = (if i < 0 then CHR ''-'' # str_nat (nat (- i)) else str_nat (nat i))"

subsection \<open>Failures and responses\<close>

text \<open>
  \<^verbatim>\<open>raise HTTPException(status_code=..., detail=...)\<close>. The detail is a string, but for
  the one that embeds the text of the enum's \<^verbatim>\<open>ValueError\<close>: \<open>ValueErrorDetail p v\<close> is
  the prefix \<open>p\<close> followed by the message of the error raised for the value \<open>v\<close>.
\<close>

datatype detail = Detail string | ValueErrorDetail string string

datatype http_exception = HTTPException (status_code: int) (detail: detail)

datatype Response =
  Response (resp_status_code: int) (resp_headers: "(string \<times> string) list")
    (resp_content: string) (resp_media_type: "string option")

subsection \<open>Header parsing\<close>

fun to_features :: "string list \<Rightarrow> string + FeatureToggle list" where
  "to_features [] = Inr []"
| "to_features (f # fs) =
     (case FeatureToggle_of f of
        None \<Rightarrow> Inl f
      | Some v \<Rightarrow> (case to_features fs of Inl e \<Rightarrow> Inl e | Inr vs \<Rightarrow> Inr (v # vs)))"

definition parse_features :: "string \<Rightarrow> http_exception + FeatureToggle list" where
  "parse_features features_str =
     (if features_str = [] then Inr []
      else
        (case to_features
                (map strip (filter (\<lambda>f. strip f \<noteq> []) (split_comma features_str))) of
           Inl v \<Rightarrow>
             Inl (HTTPException 400
                    (ValueErrorDetail ''Invalid feature in X-Features-Supported: '' v))
         | Inr fs \<Rightarrow> Inr fs))"

text \<open>
  \<^verbatim>\<open>StreamInfo(id=...)\<close> accepts every string, so the \<^verbatim>\<open>except\<close> branch of
  \<^verbatim>\<open>parse_streams\<close> is never taken and the function always returns a list.
\<close>

definition parse_streams :: "string option \<Rightarrow> StreamInfo list" where
  "parse_streams streams_str =
     (case streams_str of
        None \<Rightarrow> []
      | Some s \<Rightarrow>
          if s = [] then []
          else map (\<lambda>x. StreamInfo (strip x)) (filter (\<lambda>x. strip x \<noteq> []) (split_comma s)))"

subsection \<open>\<^verbatim>\<open>init_transmission\<close>\<close>

definition supported_features_for_poc :: "FeatureToggle set" where
  "supported_features_for_poc = {RESEND, TTL, MULTISTREAM, PULL}"

text \<open>The loop appending each requested feature of the supported set to \<^verbatim>\<open>[CORE]\<close>.\<close>

definition negotiate_features :: "FeatureToggle list \<Rightarrow> FeatureToggle list" where
  "negotiate_features features_supported =
     foldl (\<lambda>enabled feature.
              if feature \<in> supported_features_for_poc then enabled @ [feature] else enabled)
       [CORE] features_supported"

text \<open>The loop filling \<^verbatim>\<open>stream_states\<close> with a fresh state per requested stream.\<close>

definition prepare_streams :: "StreamInfo list \<Rightarrow> (string \<rightharpoonup> StreamState)" where
  "prepare_streams streams_requested =
     foldl (\<lambda>stream_states stream_info.
              stream_states(stream_info_id stream_info \<mapsto>
                \<lparr>id_ss = stream_info_id stream_info, received_chunks = {||},
                 total_chunks = None\<rparr>))
       Map.empty streams_requested"

definition init_headers ::
  "TransmissionState \<Rightarrow> FeatureToggle list \<Rightarrow> StreamInfo list \<Rightarrow> (string \<times> string) list" where
  "init_headers transmission_state enabled streams_requested =
     [(''X-Transmission-ID'', id_ts transmission_state),
      (''X-Features-Enabled'', join '','' (map feature_value enabled))]
     @ (if streams_requested \<noteq> []
        then [(''X-Accepted-Streams'', join '','' (map stream_info_id streams_requested))]
        else [])
     @ (case ttl_seconds transmission_state of
          Some t \<Rightarrow> if t \<noteq> 0 then [(''X-TTL'', str_int t)] else []
        | None \<Rightarrow> [])
     @ (case max_packet_size transmission_state of
          Some m \<Rightarrow> if m \<noteq> 0 then [(''X-Max-Packet-Size'', str_int m)] else []
        | None \<Rightarrow> [])
     @ (case chunk_size transmission_state of
          Some c \<Rightarrow> if c \<noteq> 0 then [(''X-Chunk-Size'', str_int c)] else []
        | None \<Rightarrow> [])"

text \<open>
  The handler, on the store it is given. \<open>generated_id\<close> is what \<^verbatim>\<open>generate_uuid7()\<close>
  returns (\<^verbatim>\<open>app/utils.py\<close>, called only when no identifier came with the request), and
  \<open>now\<close>, \<open>now'\<close> are the successive readings of \<^verbatim>\<open>time.time()\<close>: a creation reads the
  clock twice, a resumption once. The result is the store after the call and the
  response or the exception raised.
\<close>

definition init_transmission ::
  "storage \<Rightarrow> string \<Rightarrow> string \<Rightarrow> string \<Rightarrow> string option \<Rightarrow> string option \<Rightarrow> int option \<Rightarrow>
   int option \<Rightarrow> int option \<Rightarrow> string \<Rightarrow> real \<Rightarrow> real \<Rightarrow> storage \<times> (http_exception + Response)" where
  "init_transmission store x_client_id x_features_supported x_session_type x_transmission_id
     x_streams x_ttl x_max_packet_size x_chunk_size generated_id now now' =
     (case parse_features x_features_supported of
        Inl e \<Rightarrow> (store, Inl e)
      | Inr features_supported \<Rightarrow>
          let streams_requested = parse_streams x_streams in
          if x_session_type \<noteq> ''stateful'' \<and> x_session_type \<noteq> ''stateless''
          then (store,
                Inl (HTTPException 400
                  (Detail (''X-Session-Type must be '' @ [CHR 0x27] @ ''stateful'' @ [CHR 0x27]
                     @ '' or '' @ [CHR 0x27] @ ''stateless'' @ [CHR 0x27]))))
          else
            let tid = (if truthy_str x_transmission_id then the x_transmission_id
                       else generated_id);
                existing_transmission =
                  (if truthy_str x_transmission_id then storage_get store tid else None);
                enabled = negotiate_features features_supported;
                stream_states = prepare_streams streams_requested
            in (case existing_transmission of
                  None \<Rightarrow>
                    let transmission_state =
                          \<lparr>id_ts = tid, client_id = x_client_id, streams = stream_states,
                           features_enabled = enabled, ttl_seconds = x_ttl,
                           created_at = now, last_received_time = now',
                           session_type = x_session_type,
                           max_packet_size = x_max_packet_size, chunk_size = x_chunk_size\<rparr>
                    in (storage_create transmission_state store,
                        Inr (Response 200
                               (init_headers transmission_state enabled streams_requested)
                               [] None))
                | Some existing \<Rightarrow>
                    let transmission_state = existing\<lparr>last_received_time := now\<rparr>
                    in (fst (storage_update transmission_state
                               (mutate_in_place tid transmission_state store)),
                        Inr (Response 200
                               (init_headers transmission_state enabled streams_requested)
                               [] None))))"

subsection \<open>\<^verbatim>\<open>transmit_chunk\<close>\<close>

text \<open>Step 4, \<^verbatim>\<open>stream_state.received_chunks.add(x_packet_id)\<close>.\<close>

definition record_received :: "StreamState \<Rightarrow> int \<Rightarrow> StreamState" where
  "record_received stream_state x_packet_id =
     stream_state\<lparr>received_chunks := finsert x_packet_id (received_chunks stream_state)\<rparr>"

text \<open>The expiry test of step 2, at the clock reading \<open>now\<close>.\<close>

definition ttl_expired :: "TransmissionState \<Rightarrow> real \<Rightarrow> bool" where
  "ttl_expired transmission_state now =
     (case ttl_seconds transmission_state of
        None \<Rightarrow> False
      | Some t \<Rightarrow> t \<noteq> 0 \<and> now - created_at transmission_state > real_of_int t)"

text \<open>The size computed in step 3, before \<^verbatim>\<open>b"A" * chunk_size\<close>.\<close>

definition effective_chunk_size :: "TransmissionState \<Rightarrow> int" where
  "effective_chunk_size transmission_state =
     (let c = (if truthy_int (chunk_size transmission_state)
               then the (chunk_size transmission_state) else 4096)
      in (case max_packet_size transmission_state of
            None \<Rightarrow> c
          | Some m \<Rightarrow> if m \<noteq> 0 \<and> c > m then m else c))"

definition missing_parts :: "string option \<Rightarrow> int option \<Rightarrow> string option \<Rightarrow> string list" where
  "missing_parts x_stream_id x_packet_id x_stream_control =
     (if x_stream_id = None \<and> x_packet_id = None \<and> x_stream_control = None
      then [''either (X-Stream-ID and X-Packet-ID) or (X-Stream-Control)'']
      else (if x_stream_id = None then [''X-Stream-ID''] else [])
         @ (if x_packet_id = None then [''X-Packet-ID''] else []))"

definition invalid_combination :: "string list \<Rightarrow> http_exception" where
  "invalid_combination parts =
     HTTPException 400
       (Detail (''Invalid header combination. Missing: '' @ join '', '' parts
          @ ''. Provide either both X-Stream-ID and X-Packet-ID for chunk transmission, ''
          @ ''or X-Stream-Control for stream management.''))"

text \<open>
  The handler. \<open>now\<close> is the clock reading of the expiry test and \<open>now'\<close> the later one
  stored as the last activity. A multiplication of bytes by a negative int gives the
  empty bytes, as \<open>replicate\<close> does on \<open>nat\<close> of it. The \<^verbatim>\<open>print\<close> of the stream-control
  branch is left out.
\<close>

definition transmit_chunk ::
  "storage \<Rightarrow> string \<Rightarrow> string option \<Rightarrow> int option \<Rightarrow> string option \<Rightarrow> real \<Rightarrow> real \<Rightarrow>
   storage \<times> (http_exception + Response)" where
  "transmit_chunk store x_transmission_id x_stream_id x_packet_id x_stream_control now now' =
     (case storage_get store x_transmission_id of
        None \<Rightarrow> (store, Inl (HTTPException 404 (Detail ''Transmission not found'')))
      | Some transmission_state \<Rightarrow>
          if x_stream_control \<noteq> None
          then (store,
                Inr (Response 200 [(''X-Backpressure-Advice'', ''low'')]
                       ''Stream control command received'' None))
          else if x_stream_id \<noteq> None \<and> x_packet_id \<noteq> None
          then
            (case streams transmission_state (the x_stream_id) of
               None \<Rightarrow>
                 (store,
                  Inl (HTTPException 400
                    (Detail (''Stream '' @ [CHR 0x27] @ the x_stream_id @ [CHR 0x27]
                       @ '' not found in transmission''))))
             | Some stream_state \<Rightarrow>
                 if ttl_expired transmission_state now
                 then (store, Inl (HTTPException 410 (Detail ''Transmission expired (TTL)'')))
                 else
                   let fake_data =
                         replicate (nat (effective_chunk_size transmission_state)) CHR ''A'';
                       stream_state' = record_received stream_state (the x_packet_id);
                       transmission_state' =
                         transmission_state
                           \<lparr>streams := (streams transmission_state)
                                         (the x_stream_id \<mapsto> stream_state'),
                            last_received_time := now'\<rparr>
                   in (fst (storage_update transmission_state'
                              (mutate_in_place x_transmission_id transmission_state' store)),
                       Inr (Response 209 [(''X-Backpressure-Advice'', ''low'')] fake_data
                              (Some ''application/octet-stream''))))
          else (store,
                Inl (invalid_combination
                       (missing_parts x_stream_id x_packet_id x_stream_control))))"

subsection \<open>\<^verbatim>\<open>get_transmission_status\<close>\<close>

definition get_transmission_status :: "storage \<Rightarrow> string \<Rightarrow> real \<Rightarrow> http_exception + Status" where
  "get_transmission_status store tid now =
     (case storage_get store tid of
        None \<Rightarrow> Inl (HTTPException 404 (Detail ''Transmission not found''))
      | Some transmission_state \<Rightarrow> Inr (get_status transmission_state now))"

subsection \<open>A sequence of chunk exchanges\<close>

text \<open>
  A client sending chunk requests one after the other for one stream of one session: each
  request \<open>(pid, now, now')\<close> is handled by \<open>transmit_chunk\<close> on the store the request
  before it left, with the clock readings \<open>now\<close> and \<open>now'\<close>. \<open>recorded s reqs\<close> lists the
  chunk numbers of the requests that the expiry test of session \<open>s\<close> lets through.
\<close>

fun exchange_chunks ::
  "storage \<Rightarrow> string \<Rightarrow> string \<Rightarrow> (int \<times> real \<times> real) list \<Rightarrow> storage" where
  "exchange_chunks store tid sid [] = store"
| "exchange_chunks store tid sid ((pid, now, now') # reqs) =
     exchange_chunks (fst (transmit_chunk store tid (Some sid) (Some pid) None now now'))
       tid sid reqs"

definition recorded :: "TransmissionState \<Rightarrow> (int \<times> real \<times> real) list \<Rightarrow> int list" where
  "recorded s reqs = map fst (filter (\<lambda>(pid, now, now'). \<not> ttl_expired s now) reqs)"

section \<open>The effective chunk size in the spec's words\<close>

text \<open>
  The spec's arithmetic, to compare with \<open>effective_chunk_size\<close>: the negotiated chunk
  size if present, else the default of 4096, clamped down to the negotiated maximum packet
  size if one is present and smaller.
\<close>

definition spec_effective_chunk_size :: "int option \<Rightarrow> int option \<Rightarrow> int" where
  "spec_effective_chunk_size negotiated_chunk_size negotiated_max_packet_size =
     (let c = (case negotiated_chunk_size of Some n \<Rightarrow> n | None \<Rightarrow> 4096)
      in (case negotiated_max_packet_size of
            Some m \<Rightarrow> if m < c then m else c
          | None \<Rightarrow> c))"

section \<open>Liveness in the spec's words\<close>

text \<open>
  The spec's liveness formula, to compare with the \<open>alive\<close> field of \<open>get_status\<close>: true
  if no TTL is set, else \<open>(now - created_at) <= ttl_seconds\<close>.
\<close>

definition spec_alive :: "int option \<Rightarrow> real \<Rightarrow> real \<Rightarrow> bool" where
  "spec_alive ttl_s created now =
     (case ttl_s of None \<Rightarrow> True | Some t \<Rightarrow> now - created \<le> real_of_int t)"

section \<open>The spec's bound on a session's enabled features\<close>

text \<open>
  The spec's property of a session: its enabled features contain core-transfer and lie
  within the server-supported set together with core-transfer.
\<close>

definition features_within_supported :: "TransmissionState \<Rightarrow> bool" where
  "features_within_supported s =
     (CORE \<in> set (features_enabled s)
      \<and> set (features_enabled s) \<subseteq> insert CORE supported_features_for_poc)"

section \<open>A session to run the handlers on\<close>

text \<open>
  The store after one negotiation on the empty store: a client asks for the features
  \<^verbatim>\<open>resend, metrics\<close> and the stream \<^verbatim>\<open>video\<close> under the identifier \<^verbatim>\<open>t1\<close>, with TTL
  \<open>t\<close>, maximum packet size \<open>m\<close> and chunk size \<open>c\<close>; the clock reads 100, then 101.
  \<open>example_session\<close> is the session this leaves in the store.
\<close>

definition example_store :: "int option \<Rightarrow> int option \<Rightarrow> int option \<Rightarrow> storage" where
  "example_store t m c =
     fst (init_transmission Map.empty ''c1'' ''resend, metrics'' ''stateful'' (Some ''t1'')
            (Some ''video'') t m c ''generated'' 100 101)"

definition example_session :: "int option \<Rightarrow> int option \<Rightarrow> int option \<Rightarrow> TransmissionState" where
  "example_session t m c =
     \<lparr>id_ts = ''t1'', client_id = ''c1'',
      streams =
        [''video'' \<mapsto> \<lparr>id_ss = ''video'', received_chunks = {||}, total_chunks = None\<rparr>],
      features_enabled = [CORE, RESEND], ttl_seconds = t, created_at = 100,
      last_received_time = 101, session_type = ''stateful'', max_packet_size = m,
      chunk_size = c\<rparr>"

text \<open>
  The same negotiation without a stream list, under the identifier \<^verbatim>\<open>t2\<close>: the session
  it creates declares no stream.
\<close>

definition streamless_store :: "int option \<Rightarrow> storage" where
  "streamless_store t =
     fst (init_transmission Map.empty ''c1'' ''resend'' ''stateful'' (Some ''t2'') None t None
            None ''generated'' 100 101)"

definition streamless_session :: "int option \<Rightarrow> TransmissionState" where
  "streamless_session t =
     \<lparr>id_ts = ''t2'', client_id = ''c1'', streams = Map.empty,
      features_enabled = [CORE, RESEND], ttl_seconds = t, created_at = 100,
      last_received_time = 101, session_type = ''stateful'', max_packet_size = None,
      chunk_size = None\<rparr>"

section \<open>The missing report\<close>

lemma received_chunks_foldl:
  "received_chunks (foldl record_received s ns) = received_chunks s |\<union>| fset_of_list ns"
  by (induction ns arbitrary: s) (auto simp: record_received_def)

lemma total_chunks_foldl:
  "total_chunks (foldl record_received s ns) = total_chunks s"
  by (induction ns arbitrary: s) (auto simp: record_received_def)

lemma gaps_as_filter:
  "sorted_list_of_set ({0..m} - R) = filter (\<lambda>i. i \<notin> R) [0..m]"
proof (rule sorted_distinct_set_unique)
  show "sorted (sorted_list_of_set ({0..m} - R))" by simp
  show "distinct (sorted_list_of_set ({0..m} - R))" by simp
  show "sorted (filter (\<lambda>i. i \<notin> R) [0..m])" by (simp add: sorted_wrt_filter)
  show "distinct (filter (\<lambda>i. i \<notin> R) [0..m])" by simp
  show "set (sorted_list_of_set ({0..m} - R)) = set (filter (\<lambda>i. i \<notin> R) [0..m])"
    by auto
qed

lemma stream_status_report:
  "stream_status s =
     \<lparr>received = sorted_list_of_set (fset (received_chunks s)),
      missing =
        (if received_chunks s = {||} then []
         else filter (\<lambda>i. i |\<notin>| received_chunks s) [0..Max (fset (received_chunks s))]),
      total_st = total_chunks s\<rparr>"
proof (cases "received_chunks s = {||}")
  case True
  then show ?thesis
    by (simp add: stream_status_def sorted_list_of_fset.rep_eq)
next
  case False
  let ?R = "fset (received_chunks s)"
  have ne: "?R \<noteq> {}"
    using False by (metis bot_fset.rep_eq fset_inject)
  have l: "sorted_list_of_set ?R \<noteq> []"
    using ne by simp
  have mx: "Max (set (sorted_list_of_set ?R)) = Max ?R"
    by simp
  show ?thesis
  proof (cases "0 \<le> Max ?R")
    case True
    then show ?thesis
      using False l mx
      by (simp add: stream_status_def sorted_list_of_fset.rep_eq Let_def
          fset_of_list.rep_eq gaps_as_filter)
  next
    case neg: False
    then have "Max ?R < 0" by simp
    then have "\<forall>a\<in>?R. a < 0" using ne by simp
    then show ?thesis
      using False l mx neg
      by (simp add: stream_status_def sorted_list_of_fset.rep_eq Let_def)
  qed
qed

section \<open>The handlers on the example session\<close>

lemma parse_features_example: "parse_features ''resend, metrics'' = Inr [RESEND, METRICS]"
  by (simp add: parse_features_def strip_def isspace_def FeatureToggle_of_def)

lemma parse_streams_example: "parse_streams (Some ''video'') = [StreamInfo ''video'']"
  by (simp add: parse_streams_def strip_def isspace_def)

lemma negotiate_features_example: "negotiate_features [RESEND, METRICS] = [CORE, RESEND]"
  by (simp add: negotiate_features_def supported_features_for_poc_def)

lemma example_store_eq: "example_store t m c = [''t1'' \<mapsto> example_session t m c]"
  by (simp add: example_store_def init_transmission_def parse_features_example
      parse_streams_example negotiate_features_example truthy_str_def storage_get_def
      prepare_streams_def storage_create_def example_session_def Let_def)

lemma example_lookup: "example_store t m c ''t1'' = Some (example_session t m c)"
  by (simp add: example_store_eq)

lemma example_stream:
  "streams (example_session t m c) ''video''
   = Some \<lparr>id_ss = ''video'', received_chunks = {||}, total_chunks = None\<rparr>"
  by (simp add: example_session_def)

lemma example_no_stream: "streams (example_session t m c) ''audio'' = None"
  by (simp add: example_session_def)

lemma example_fields:
  "ttl_seconds (example_session t m c) = t"
  "max_packet_size (example_session t m c) = m"
  "chunk_size (example_session t m c) = c"
  "created_at (example_session t m c) = 100"
  "id_ts (example_session t m c) = ''t1''"
  by (simp_all add: example_session_def)

lemma parse_features_resend: "parse_features ''resend'' = Inr [RESEND]"
  by (simp add: parse_features_def strip_def isspace_def FeatureToggle_of_def)

lemma streamless_store_eq: "streamless_store t = [''t2'' \<mapsto> streamless_session t]"
  by (simp add: streamless_store_def init_transmission_def parse_features_resend
      parse_streams_def negotiate_features_def supported_features_for_poc_def truthy_str_def
      storage_get_def prepare_streams_def storage_create_def streamless_session_def Let_def)

section \<open>Chunk exchange\<close>

lemma transmit_chunk_addressed:
  assumes "store tid = Some s" and "streams s sid = Some ss"
  shows "transmit_chunk store tid (Some sid) (Some pid) None now now' =
     (if ttl_expired s now
      then (store, Inl (HTTPException 410 (Detail ''Transmission expired (TTL)'')))
      else (let s' = s\<lparr>streams := (streams s)(sid \<mapsto> record_received ss pid),
                         last_received_time := now'\<rparr>
            in (fst (storage_update s' (mutate_in_place tid s' store)),
                Inr (Response 209 [(''X-Backpressure-Advice'', ''low'')]
                       (replicate (nat (effective_chunk_size s)) CHR ''A'')
                       (Some ''application/octet-stream'')))))"
  using assms by (simp add: transmit_chunk_def storage_get_def Let_def)

lemma transmit_chunk_control:
  assumes "store tid = Some s"
  shows "transmit_chunk store tid xs xp (Some ctl) now now' =
     (store, Inr (Response 200 [(''X-Backpressure-Advice'', ''low'')]
                    ''Stream control command received'' None))"
  using assms by (simp add: transmit_chunk_def storage_get_def)

lemma alive_not_expired: "alive (get_status s now) = (\<not> ttl_expired s now)"
  by (auto simp: get_status_def ttl_expired_def split: option.splits)

lemma status_of_stored:
  "store tid = Some s \<Longrightarrow> get_transmission_status store tid now = Inr (get_status s now)"
  by (simp add: get_transmission_status_def storage_get_def)

lemma expired_response_means_expired:
  assumes "store tid = Some s"
    and "snd (transmit_chunk store tid xs xp xc now now') = Inl e" and "status_code e = 410"
  shows "ttl_expired s now"
  using assms
  by (auto simp: transmit_chunk_def storage_get_def invalid_combination_def Let_def
      split: option.splits if_splits)

text \<open>
  Claim C8, as amended. For every session \<open>s\<close> and every time \<open>now\<close>, the \<open>alive\<close> flag of
  the status snapshot (true when \<open>ttl_seconds\<close> is absent or zero, else
  \<open>now - created_at <= ttl_seconds\<close>) is the negation of the expiry test of the
  chunk-exchange path over the same \<open>ttl_seconds\<close> and \<open>created_at\<close>. On the handlers, for a
  stored session: a chunk exchange of any shape that is refused with status 410 at a time
  means the status query at that time reports \<open>alive = False\<close>; and for an exchange in the
  chunk-addressed shape (stream identifier and chunk number, no stream-control directive)
  that names a declared stream, status reports \<open>alive = False\<close> exactly when the exchange
  is refused with status 410.
\<close>

theorem status_alive_iff_exchange_not_expired:
  "alive (get_status s now) = (\<not> ttl_expired s now)
   \<and> alive (get_status s now)
     = (case ttl_seconds s of
          None \<Rightarrow> True
        | Some t \<Rightarrow> t = 0 \<or> now - created_at s \<le> real_of_int t)
   \<and> ttl_expired s now
     = (case ttl_seconds s of
          None \<Rightarrow> False
        | Some t \<Rightarrow> t \<noteq> 0 \<and> now - created_at s > real_of_int t)
   \<and> (store tid = Some s \<longrightarrow>
        get_transmission_status store tid now = Inr (get_status s now)
        \<and> (\<forall>e. snd (transmit_chunk store tid xs xp xc now now') = Inl e \<and> status_code e = 410
               \<longrightarrow> alive (get_status s now) = False))
   \<and> (store tid = Some s \<and> streams s sid = Some ss \<longrightarrow>
        (alive (get_status s now) = False)
        = (snd (transmit_chunk store tid (Some sid) (Some pid) None now now')
           = Inl (HTTPException 410 (Detail ''Transmission expired (TTL)'')))
        \<and> (alive (get_status s now) = False)
        = (\<exists>e. snd (transmit_chunk store tid (Some sid) (Some pid) None now now') = Inl e
              \<and> status_code e = 410))"
proof -
  note a = alive_not_expired [of s now]
  have b: "alive (get_status s now)
     = (case ttl_seconds s of
          None \<Rightarrow> True
        | Some t \<Rightarrow> t = 0 \<or> now - created_at s \<le> real_of_int t)"
    by (auto simp: get_status_def split: option.splits)
  have c: "ttl_expired s now
     = (case ttl_seconds s of
          None \<Rightarrow> False
        | Some t \<Rightarrow> t \<noteq> 0 \<and> now - created_at s > real_of_int t)"
    by (simp add: ttl_expired_def)
  have d: "store tid = Some s \<longrightarrow>
        get_transmission_status store tid now = Inr (get_status s now)
        \<and> (\<forall>e. snd (transmit_chunk store tid xs xp xc now now') = Inl e \<and> status_code e = 410
               \<longrightarrow> alive (get_status s now) = False)"
    using a expired_response_means_expired [of store tid s xs xp xc now now']
      status_of_stored [of store tid s now]
    by auto
  have e: "store tid = Some s \<and> streams s sid = Some ss \<longrightarrow>
        (alive (get_status s now) = False)
        = (snd (transmit_chunk store tid (Some sid) (Some pid) None now now')
           = Inl (HTTPException 410 (Detail ''Transmission expired (TTL)'')))
        \<and> (alive (get_status s now) = False)
        = (\<exists>e. snd (transmit_chunk store tid (Some sid) (Some pid) None now now') = Inl e
              \<and> status_code e = 410)"
    using a transmit_chunk_addressed [of store tid s sid ss pid now now']
    by (auto simp: Let_def)
  show ?thesis using a b c d e by (intro conjI)
qed

theorem status_alive_iff_exchange_not_expired_witness:
  "alive (get_status (example_session (Some 1) None None) 102) = False
   \<and> snd (transmit_chunk (example_store (Some 1) None None) ''t1'' (Some ''video'') (Some 0)
            None 102 103)
       = Inl (HTTPException 410 (Detail ''Transmission expired (TTL)''))
   \<and> get_transmission_status (example_store (Some 1) None None) ''t1'' 102
       = Inr (get_status (example_session (Some 1) None None) 102)
   \<and> alive (get_status (example_session (Some 1) None None) 101) = True"
  using status_alive_iff_exchange_not_expired
    [of "example_session (Some 1) None None" 102 "example_store (Some 1) None None" "''t1''"
      "Some ''video''" "Some 0" None 103 "''video''"
      "\<lparr>id_ss = ''video'', received_chunks = {||}, total_chunks = None\<rparr>" 0]
  by (simp add: example_lookup example_stream) (simp add: example_session_def get_status_def)

text \<open>
  The claim as stated fails in two places. The session that declares no stream, with a
  TTL of 1 second, reports \<open>alive = False\<close> 2 seconds after its creation, yet no chunk
  exchange on it is refused with status 410 at that time: a chunk request gets 400, a
  stream-control directive 200, an empty request 400, and so does every other request.
  And the liveness formula as the claim spells it is false for a session with a TTL of 0
  five seconds after its creation, where the status snapshot reports \<open>alive = True\<close>.
\<close>

theorem status_dead_without_expired_exchange_counterexample:
  "get_transmission_status (streamless_store (Some 1)) ''t2'' 102
     = Inr (get_status (streamless_session (Some 1)) 102)
   \<and> alive (get_status (streamless_session (Some 1)) 102) = False
   \<and> snd (transmit_chunk (streamless_store (Some 1)) ''t2'' (Some ''video'') (Some 0) None
            102 103)
     = Inl (HTTPException 400
              (Detail (''Stream '' @ [CHR 0x27] @ ''video'' @ [CHR 0x27]
                 @ '' not found in transmission'')))
   \<and> snd (transmit_chunk (streamless_store (Some 1)) ''t2'' None None (Some ''video=pause'')
            102 103)
     = Inr (Response 200 [(''X-Backpressure-Advice'', ''low'')]
              ''Stream control command received'' None)
   \<and> snd (transmit_chunk (streamless_store (Some 1)) ''t2'' None None None 102 103)
     = Inl (invalid_combination
              [''either (X-Stream-ID and X-Packet-ID) or (X-Stream-Control)''])
   \<and> (\<forall>xs xp xc now'.
         snd (transmit_chunk (streamless_store (Some 1)) ''t2'' xs xp xc 102 now')
         \<noteq> Inl (HTTPException 410 (Detail ''Transmission expired (TTL)'')))
   \<and> spec_alive (Some 0) 100 105 = False
   \<and> map_option ttl_seconds (example_store (Some 0) None None ''t1'') = Some (Some 0)
   \<and> map_option created_at (example_store (Some 0) None None ''t1'') = Some 100
   \<and> get_transmission_status (example_store (Some 0) None None) ''t1'' 105
     = Inr (get_status (example_session (Some 0) None None) 105)
   \<and> alive (get_status (example_session (Some 0) None None) 105) = True"
proof -
  have l: "streamless_store (Some 1) ''t2'' = Some (streamless_session (Some 1))"
    by (simp add: streamless_store_eq)
  have n: "streams (streamless_session (Some 1)) x = None" for x
    by (simp add: streamless_session_def)
  have a: "\<forall>xs xp xc now'.
         snd (transmit_chunk (streamless_store (Some 1)) ''t2'' xs xp xc 102 now')
         \<noteq> Inl (HTTPException 410 (Detail ''Transmission expired (TTL)''))"
    using l n
    by (auto simp: transmit_chunk_def storage_get_def invalid_combination_def Let_def
        split: option.splits if_splits)
  have b: "get_transmission_status (streamless_store (Some 1)) ''t2'' 102
     = Inr (get_status (streamless_session (Some 1)) 102)"
    using l by (rule status_of_stored)
  have c: "alive (get_status (streamless_session (Some 1)) 102) = False"
    by (simp add: get_status_def streamless_session_def)
  have d: "snd (transmit_chunk (streamless_store (Some 1)) ''t2'' (Some ''video'') (Some 0) None
            102 103)
     = Inl (HTTPException 400
              (Detail (''Stream '' @ [CHR 0x27] @ ''video'' @ [CHR 0x27]
                 @ '' not found in transmission'')))"
    using l n by (simp add: transmit_chunk_def storage_get_def)
  have e: "snd (transmit_chunk (streamless_store (Some 1)) ''t2'' None None (Some ''video=pause'')
            102 103)
     = Inr (Response 200 [(''X-Backpressure-Advice'', ''low'')]
              ''Stream control command received'' None)"
    using l by (simp add: transmit_chunk_def storage_get_def)
  have f: "snd (transmit_chunk (streamless_store (Some 1)) ''t2'' None None None 102 103)
     = Inl (invalid_combination
              [''either (X-Stream-ID and X-Packet-ID) or (X-Stream-Control)''])"
    using l by (simp add: transmit_chunk_def storage_get_def missing_parts_def)
  have g: "spec_alive (Some 0) 100 105 = False"
    by (simp add: spec_alive_def)
  have h: "map_option ttl_seconds (example_store (Some 0) None None ''t1'') = Some (Some 0)"
    "map_option created_at (example_store (Some 0) None None ''t1'') = Some 100"
    by (simp_all add: example_lookup example_fields)
  have i: "get_transmission_status (example_store (Some 0) None None) ''t1'' 105
     = Inr (get_status (example_session (Some 0) None None) 105)"
    using example_lookup by (rule status_of_stored)
  have j: "alive (get_status (example_session (Some 0) None None) 105) = True"
    by (simp add: get_status_def example_session_def)
  show ?thesis using a b c d e f g h i j by (intro conjI)
qed

text \<open>
  Claim C10. A session whose \<open>ttl_seconds\<close> is exactly 0 behaves as one with no TTL: no
  chunk exchange on it, of either shape and at any time, is refused with status 410; every
  status query on it succeeds and reports \<open>alive = True\<close> and a null \<open>ttl\<close>; and both the
  outcome of the exchange and these two status fields are those of the same session with
  \<open>ttl_seconds = None\<close>.
\<close>

theorem zero_ttl_is_no_ttl:
  assumes "store tid = Some s" and "ttl_seconds s = Some 0"
  shows "(\<forall>e. snd (transmit_chunk store tid xs xp xc now now') = Inl e
              \<longrightarrow> status_code e \<noteq> 410)
     \<and> get_transmission_status store tid now = Inr (get_status s now)
     \<and> alive (get_status s now) = True
     \<and> ttl (get_status s now) = None
     \<and> snd (transmit_chunk store tid xs xp xc now now')
        = snd (transmit_chunk (store(tid \<mapsto> s\<lparr>ttl_seconds := None\<rparr>)) tid xs xp xc now now')
     \<and> alive (get_status s now) = alive (get_status (s\<lparr>ttl_seconds := None\<rparr>) now)
     \<and> ttl (get_status s now) = ttl (get_status (s\<lparr>ttl_seconds := None\<rparr>) now)"
proof -
  have ne: "\<not> ttl_expired s now"
    using assms(2) by (simp add: ttl_expired_def)
  have a: "\<forall>e. snd (transmit_chunk store tid xs xp xc now now') = Inl e
              \<longrightarrow> status_code e \<noteq> 410"
    using assms(1) ne
    by (auto simp: transmit_chunk_def storage_get_def invalid_combination_def Let_def
        split: option.splits if_splits)
  have b: "get_transmission_status store tid now = Inr (get_status s now)"
    using assms(1) by (rule status_of_stored)
  have c: "alive (get_status s now) = True" "ttl (get_status s now) = None"
    using assms(2) by (simp_all add: get_status_def truthy_int_def)
  have d: "alive (get_status (s\<lparr>ttl_seconds := None\<rparr>) now) = True"
    "ttl (get_status (s\<lparr>ttl_seconds := None\<rparr>) now) = None"
    by (simp_all add: get_status_def truthy_int_def)
  have e: "snd (transmit_chunk store tid xs xp xc now now')
        = snd (transmit_chunk (store(tid \<mapsto> s\<lparr>ttl_seconds := None\<rparr>)) tid xs xp xc now now')"
    using assms
    by (auto simp: transmit_chunk_def storage_get_def Let_def ttl_expired_def
        effective_chunk_size_def split: option.splits)
  show ?thesis using a b c d e by simp
qed

theorem zero_ttl_is_no_ttl_witness:
  "snd (transmit_chunk (example_store (Some 0) None (Some 8)) ''t1'' (Some ''video'') (Some 0)
          None 1000000 1000000)
     = Inr (Response 209 [(''X-Backpressure-Advice'', ''low'')] (replicate 8 CHR ''A'')
             (Some ''application/octet-stream''))
   \<and> alive (get_status (example_session (Some 0) None (Some 8)) 1000000) = True
   \<and> ttl (get_status (example_session (Some 0) None (Some 8)) 1000000) = None"
  using zero_ttl_is_no_ttl
    [of "example_store (Some 0) None (Some 8)" "''t1''" "example_session (Some 0) None (Some 8)"
      "Some ''video''" "Some 0" None 1000000 1000000]
    transmit_chunk_addressed [of "example_store (Some 0) None (Some 8)" "''t1''"
      "example_session (Some 0) None (Some 8)" "''video''"
      "\<lparr>id_ss = ''video'', received_chunks = {||}, total_chunks = None\<rparr>" 0 1000000 1000000]
  by (simp add: example_lookup example_stream example_fields ttl_expired_def
      effective_chunk_size_def truthy_int_def Let_def)

lemma transmit_chunk_failure_frame:
  "snd (transmit_chunk store tid xs xp xc now now') = Inl e \<Longrightarrow>
   fst (transmit_chunk store tid xs xp xc now now') = store"
  by (auto simp: transmit_chunk_def Let_def split: option.splits if_splits)

lemma init_transmission_failure_frame:
  "snd (init_transmission store cid xf xt xid xs xttl xm xc gid now now') = Inl e \<Longrightarrow>
   fst (init_transmission store cid xf xt xid xs xttl xm xc gid now now') = store"
  by (auto simp: init_transmission_def Let_def split: option.splits if_splits sum.splits)

lemma transmit_chunk_success:
  assumes "store tid = Some s"
    and "snd (transmit_chunk store tid xs xp None now now') = Inr r"
  shows "resp_content r = replicate (nat (effective_chunk_size s)) CHR ''A''"
  using assms
  by (auto simp: transmit_chunk_def storage_get_def Let_def split: option.splits if_splits)

lemma example_exchange:
  "\<not> ttl_expired (example_session t m c) now \<Longrightarrow>
   snd (transmit_chunk (example_store t m c) ''t1'' (Some ''video'') (Some pid) None now now')
   = Inr (Response 209 [(''X-Backpressure-Advice'', ''low'')]
            (replicate (nat (effective_chunk_size (example_session t m c))) CHR ''A'')
            (Some ''application/octet-stream''))"
  using transmit_chunk_addressed [of "example_store t m c" "''t1''" "example_session t m c"
      "''video''" "\<lparr>id_ss = ''video'', received_chunks = {||}, total_chunks = None\<rparr>"
      pid now now']
  by (simp add: example_lookup example_stream Let_def)

text \<open>
  Claim C3, as amended. Take a chunk exchange in the chunk-addressed shape (stream
  identifier and chunk number, no stream-control directive) that names a declared stream
  of a stored session whose TTL is set and not zero. If the time since the session's
  creation exceeds the TTL when the exchange is handled, the exchange is refused with
  status 410 (expired) and the store is left as it was; a status query for the same
  identifier at that time or later succeeds, returns the snapshot of that session and
  reports \<open>alive = False\<close>.
\<close>

theorem expired_exchange_refused:
  assumes "store tid = Some s" and "streams s sid = Some ss"
    and "ttl_seconds s = Some t" and "t \<noteq> 0"
    and "now - created_at s > real_of_int t" and "now \<le> later"
  shows "transmit_chunk store tid (Some sid) (Some pid) None now now'
       = (store, Inl (HTTPException 410 (Detail ''Transmission expired (TTL)'')))
     \<and> get_transmission_status
          (fst (transmit_chunk store tid (Some sid) (Some pid) None now now')) tid later
       = Inr (get_status s later)
     \<and> alive (get_status s later) = False
     \<and> transmission_id (get_status s later) = id_ts s"
proof -
  have ex: "ttl_expired s now"
    using assms(3-5) by (simp add: ttl_expired_def)
  have a: "transmit_chunk store tid (Some sid) (Some pid) None now now'
       = (store, Inl (HTTPException 410 (Detail ''Transmission expired (TTL)'')))"
    using transmit_chunk_addressed [of store tid s sid ss pid now now'] assms(1,2) ex
    by simp
  have b: "get_transmission_status store tid later = Inr (get_status s later)"
    using assms(1) by (rule status_of_stored)
  have "later - created_at s > real_of_int t"
    using assms(5,6) by linarith
  then have c: "alive (get_status s later) = False"
    using assms(3,4) by (simp add: get_status_def)
  have d: "transmission_id (get_status s later) = id_ts s"
    by (simp add: get_status_def)
  show ?thesis using a b c d by simp
qed

theorem expired_exchange_refused_witness:
  "transmit_chunk (example_store (Some 1) None None) ''t1'' (Some ''video'') (Some 0) None 102 103
       = (example_store (Some 1) None None,
          Inl (HTTPException 410 (Detail ''Transmission expired (TTL)'')))
   \<and> get_transmission_status (example_store (Some 1) None None) ''t1'' 104
       = Inr (get_status (example_session (Some 1) None None) 104)
   \<and> alive (get_status (example_session (Some 1) None None) 104) = False"
  using expired_exchange_refused [of "example_store (Some 1) None None" "''t1''" "example_session (Some 1) None None"
      "''video''" "\<lparr>id_ss = ''video'', received_chunks = {||}, total_chunks = None\<rparr>" 1
      102 104 0 103]
  by (simp add: example_lookup example_stream example_fields get_transmission_status_def
      storage_get_def)

text \<open>
  The claim as stated fails in three places. A session negotiated with a TTL of 0 has its
  TTL set, and 5 seconds after its creation the elapsed time exceeds it, yet the exchange
  succeeds with status 209. A session with a TTL of 1 second, 2 seconds after its creation,
  still accepts a request that carries a stream-control directive (status 200), and
  refuses a chunk request for an undeclared stream with status 400, not 410.
\<close>

theorem expired_exchange_counterexample:
  "map_option ttl_seconds (example_store (Some 0) None (Some 8) ''t1'') = Some (Some 0)
   \<and> map_option created_at (example_store (Some 0) None (Some 8) ''t1'') = Some 100
   \<and> (105 :: real) - 100 > real_of_int 0
   \<and> snd (transmit_chunk (example_store (Some 0) None (Some 8)) ''t1'' (Some ''video'') (Some 0)
            None 105 105)
       = Inr (Response 209 [(''X-Backpressure-Advice'', ''low'')] (replicate 8 CHR ''A'')
               (Some ''application/octet-stream''))
   \<and> map_option ttl_seconds (example_store (Some 1) None None ''t1'') = Some (Some 1)
   \<and> map_option created_at (example_store (Some 1) None None ''t1'') = Some 100
   \<and> (102 :: real) - 100 > real_of_int 1
   \<and> snd (transmit_chunk (example_store (Some 1) None None) ''t1'' None None
            (Some ''video=pause'') 102 102)
       = Inr (Response 200 [(''X-Backpressure-Advice'', ''low'')]
               ''Stream control command received'' None)
   \<and> snd (transmit_chunk (example_store (Some 1) None None) ''t1'' (Some ''audio'') (Some 0)
            None 102 102)
       = Inl (HTTPException 400
               (Detail (''Stream '' @ [CHR 0x27] @ ''audio'' @ [CHR 0x27]
                  @ '' not found in transmission'')))"
  using transmit_chunk_addressed [of "example_store (Some 0) None (Some 8)" "''t1''"
      "example_session (Some 0) None (Some 8)" "''video''"
      "\<lparr>id_ss = ''video'', received_chunks = {||}, total_chunks = None\<rparr>" 0 105 105]
    transmit_chunk_control [of "example_store (Some 1) None None" "''t1''"
      "example_session (Some 1) None None" None None "''video=pause''" 102 102]
  by (simp add: example_lookup example_stream example_no_stream example_fields ttl_expired_def
      effective_chunk_size_def truthy_int_def Let_def transmit_chunk_def storage_get_def)

text \<open>
  Claim C4, as amended. On a stored session, a request without a stream-control directive
  that supplies neither a stream identifier nor a chunk number, or only one of the two, is
  refused with status 400 and the store is unchanged; the message names what is missing
  (either shape, \<^verbatim>\<open>X-Packet-ID\<close>, or \<^verbatim>\<open>X-Stream-ID\<close>). A request that carries a
  stream-control directive is accepted as stream control with status 200, whatever stream
  identifier or chunk number comes with it.
\<close>

theorem incomplete_request_rejected:
  assumes "store tid = Some s"
  shows "transmit_chunk store tid None None None now now'
       = (store, Inl (HTTPException 400 (Detail
           (''Invalid header combination. Missing: ''
            @ ''either (X-Stream-ID and X-Packet-ID) or (X-Stream-Control)''
            @ ''. Provide either both X-Stream-ID and X-Packet-ID for chunk transmission, ''
            @ ''or X-Stream-Control for stream management.''))))
     \<and> transmit_chunk store tid (Some sid) None None now now'
       = (store, Inl (HTTPException 400 (Detail
           (''Invalid header combination. Missing: '' @ ''X-Packet-ID''
            @ ''. Provide either both X-Stream-ID and X-Packet-ID for chunk transmission, ''
            @ ''or X-Stream-Control for stream management.''))))
     \<and> transmit_chunk store tid None (Some pid) None now now'
       = (store, Inl (HTTPException 400 (Detail
           (''Invalid header combination. Missing: '' @ ''X-Stream-ID''
            @ ''. Provide either both X-Stream-ID and X-Packet-ID for chunk transmission, ''
            @ ''or X-Stream-Control for stream management.''))))
     \<and> transmit_chunk store tid xs xp (Some ctl) now now'
       = (store, Inr (Response 200 [(''X-Backpressure-Advice'', ''low'')]
                        ''Stream control command received'' None))"
  using assms
  by (simp add: transmit_chunk_def storage_get_def invalid_combination_def missing_parts_def)

theorem incomplete_request_rejected_witness:
  "transmit_chunk (example_store None None None) ''t1'' (Some ''video'') None None 102 103
     = (example_store None None None,
        Inl (HTTPException 400 (Detail
           (''Invalid header combination. Missing: X-Packet-ID''
            @ ''. Provide either both X-Stream-ID and X-Packet-ID for chunk transmission, ''
            @ ''or X-Stream-Control for stream management.''))))"
  using incomplete_request_rejected [of "example_store None None None" "''t1''" "example_session None None None"
      102 103 "''video''" 0 None None "''x''"]
  by (simp add: example_lookup)

text \<open>
  The claim as stated fails for a request that supplies both shapes at once: it is not
  refused, the directive is acknowledged with status 200.
\<close>

theorem both_shapes_counterexample:
  "transmit_chunk (example_store None None None) ''t1'' (Some ''video'') (Some 0)
     (Some ''video=pause'') 102 103
   = (example_store None None None,
      Inr (Response 200 [(''X-Backpressure-Advice'', ''low'')]
             ''Stream control command received'' None))"
  using transmit_chunk_control [of "example_store None None None" "''t1''"
      "example_session None None None" "Some ''video''" "Some 0" "''video=pause''" 102 103]
  by (simp add: example_lookup)

text \<open>
  Claim C5, as amended. On every successful chunk exchange in the chunk-addressed shape,
  let \<open>c\<close> be the negotiated chunk size if one is present and not zero, else 4096, and \<open>e\<close>
  the negotiated maximum packet size if one is present, not zero and smaller than \<open>c\<close>,
  else \<open>c\<close>. The payload is \<open>e\<close> bytes \<^verbatim>\<open>A\<close>, and empty when \<open>e\<close> is negative. When every
  size that was negotiated is positive this is the size the spec gives,
  \<open>spec_effective_chunk_size\<close>; when neither was negotiated it is 4096.
\<close>

theorem payload_size:
  assumes "store tid = Some s"
    and "snd (transmit_chunk store tid xs xp None now now') = Inr r"
  shows "(let c = (case chunk_size s of Some n \<Rightarrow> if n \<noteq> 0 then n else 4096 | None \<Rightarrow> 4096);
              e = (case max_packet_size s of
                     Some m \<Rightarrow> if m \<noteq> 0 \<and> m < c then m else c
                   | None \<Rightarrow> c)
          in resp_content r = replicate (nat e) CHR ''A''
             \<and> int (length (resp_content r)) = max 0 e)
     \<and> ((\<forall>n. chunk_size s = Some n \<longrightarrow> 0 < n) \<and> (\<forall>m. max_packet_size s = Some m \<longrightarrow> 0 < m)
          \<longrightarrow> int (length (resp_content r))
              = spec_effective_chunk_size (chunk_size s) (max_packet_size s))
     \<and> (chunk_size s = None \<and> max_packet_size s = None \<longrightarrow> length (resp_content r) = 4096)"
proof -
  note c = transmit_chunk_success [OF assms]
  have a: "let c = (case chunk_size s of Some n \<Rightarrow> if n \<noteq> 0 then n else 4096 | None \<Rightarrow> 4096);
              e = (case max_packet_size s of
                     Some m \<Rightarrow> if m \<noteq> 0 \<and> m < c then m else c
                   | None \<Rightarrow> c)
          in resp_content r = replicate (nat e) CHR ''A''
             \<and> int (length (resp_content r)) = max 0 e"
    unfolding c
    by (auto simp: effective_chunk_size_def truthy_int_def Let_def split: option.splits)
  have b: "(\<forall>n. chunk_size s = Some n \<longrightarrow> 0 < n) \<and> (\<forall>m. max_packet_size s = Some m \<longrightarrow> 0 < m)
          \<longrightarrow> int (length (resp_content r))
              = spec_effective_chunk_size (chunk_size s) (max_packet_size s)"
    unfolding c
    by (auto simp: effective_chunk_size_def spec_effective_chunk_size_def truthy_int_def Let_def
        split: option.splits)
  have d: "chunk_size s = None \<and> max_packet_size s = None \<longrightarrow> length (resp_content r) = 4096"
    unfolding c
    by (auto simp: effective_chunk_size_def truthy_int_def Let_def)
  show ?thesis using a b d by (intro conjI)
qed

theorem payload_size_witness:
  "snd (transmit_chunk (example_store None (Some 5) (Some 8)) ''t1'' (Some ''video'') (Some 0)
          None 102 103)
     = Inr (Response 209 [(''X-Backpressure-Advice'', ''low'')] (replicate 5 CHR ''A'')
             (Some ''application/octet-stream''))
   \<and> int (length (replicate 5 CHR ''A'')) = spec_effective_chunk_size (Some 8) (Some 5)
   \<and> spec_effective_chunk_size (Some 8) (Some 5) = 5"
  using payload_size [of "example_store None (Some 5) (Some 8)" "''t1''"
      "example_session None (Some 5) (Some 8)" "Some ''video''" "Some 0" 102 103
      "Response 209 [(''X-Backpressure-Advice'', ''low'')] (replicate 5 CHR ''A'')
             (Some ''application/octet-stream'')"]
    example_exchange [of None "Some 5" "Some 8" 102 0 103]
  by (simp add: example_lookup example_fields ttl_expired_def effective_chunk_size_def
      truthy_int_def spec_effective_chunk_size_def)

text \<open>
  The claim as stated fails when a negotiated size is 0 or negative: with chunk size 0 and
  maximum packet size 8, and with chunk size 8 and maximum packet size 0, the payload has
  8 bytes where the claim gives 0; with chunk size 8 and maximum packet size -1 the payload
  is empty where the claim gives -1.
\<close>

theorem payload_size_counterexample:
  "snd (transmit_chunk (example_store None (Some 8) (Some 0)) ''t1'' (Some ''video'') (Some 0)
          None 102 103)
     = Inr (Response 209 [(''X-Backpressure-Advice'', ''low'')] (replicate 8 CHR ''A'')
             (Some ''application/octet-stream''))
   \<and> spec_effective_chunk_size (Some 0) (Some 8) = 0
   \<and> snd (transmit_chunk (example_store None (Some 0) (Some 8)) ''t1'' (Some ''video'') (Some 0)
          None 102 103)
     = Inr (Response 209 [(''X-Backpressure-Advice'', ''low'')] (replicate 8 CHR ''A'')
             (Some ''application/octet-stream''))
   \<and> spec_effective_chunk_size (Some 8) (Some 0) = 0
   \<and> snd (transmit_chunk (example_store None (Some (- 1)) (Some 8)) ''t1'' (Some ''video'')
          (Some 0) None 102 103)
     = Inr (Response 209 [(''X-Backpressure-Advice'', ''low'')] []
             (Some ''application/octet-stream''))
   \<and> spec_effective_chunk_size (Some 8) (Some (- 1)) = - 1"
  using example_exchange [of None "Some 8" "Some 0" 102 0 103]
    example_exchange [of None "Some 0" "Some 8" 102 0 103]
    example_exchange [of None "Some (- 1)" "Some 8" 102 0 103]
  by (simp add: example_fields ttl_expired_def effective_chunk_size_def
      truthy_int_def spec_effective_chunk_size_def)

text \<open>
  Claim C6. A chunk exchange on a stored session that names a stream identifier the
  session does not declare is refused with status 400, and the store it returns is the
  store it was given: no last-activity refresh, no chunk number recorded. More generally,
  whenever \<open>transmit_chunk\<close> or \<open>init_transmission\<close> raises (not found, invalid request,
  expired), the store after the call is the store before it.
\<close>

theorem failed_exchange_leaves_store:
  "(store tid = Some s \<and> streams s sid = None \<longrightarrow>
      transmit_chunk store tid (Some sid) (Some pid) None now now'
        = (store,
           Inl (HTTPException 400
                  (Detail (''Stream '' @ [CHR 0x27] @ sid @ [CHR 0x27]
                     @ '' not found in transmission'')))))
   \<and> (snd (transmit_chunk store tid xs xp xc now now') = Inl e \<longrightarrow>
        fst (transmit_chunk store tid xs xp xc now now') = store)
   \<and> (snd (init_transmission store cid xf xt xid xstr xttl xm xcs gid now now') = Inl e' \<longrightarrow>
        fst (init_transmission store cid xf xt xid xstr xttl xm xcs gid now now') = store)"
proof -
  have a: "store tid = Some s \<and> streams s sid = None \<longrightarrow>
      transmit_chunk store tid (Some sid) (Some pid) None now now'
        = (store,
           Inl (HTTPException 400
                  (Detail (''Stream '' @ [CHR 0x27] @ sid @ [CHR 0x27]
                     @ '' not found in transmission''))))"
    by (simp add: transmit_chunk_def storage_get_def)
  have b: "snd (transmit_chunk store tid xs xp xc now now') = Inl e \<longrightarrow>
        fst (transmit_chunk store tid xs xp xc now now') = store"
    using transmit_chunk_failure_frame [of store tid xs xp xc now now' e] by simp
  have c: "snd (init_transmission store cid xf xt xid xstr xttl xm xcs gid now now') = Inl e' \<longrightarrow>
        fst (init_transmission store cid xf xt xid xstr xttl xm xcs gid now now') = store"
    using init_transmission_failure_frame [of store cid xf xt xid xstr xttl xm xcs gid now now' e']
    by simp
  show ?thesis
    using a b c by (intro conjI)
qed

theorem failed_exchange_leaves_store_witness:
  "transmit_chunk (example_store None None None) ''t1'' (Some ''audio'') (Some 0) None 102 103
     = (example_store None None None,
        Inl (HTTPException 400
               (Detail (''Stream '' @ [CHR 0x27] @ ''audio'' @ [CHR 0x27]
                  @ '' not found in transmission''))))
   \<and> fst (transmit_chunk (example_store None None None) ''t1'' (Some ''audio'') (Some 0) None
            102 103) ''t1''
     = Some (example_session None None None)
   \<and> fst (init_transmission (example_store None None None) ''c1'' ''resend'' ''bogus''
            (Some ''t1'') None None None None ''generated'' 102 103)
     = example_store None None None"
  using failed_exchange_leaves_store [of "example_store None None None" "''t1''" "example_session None None None" "''audio''"
      0 102 103 "Some ''audio''" "Some 0" None
      "HTTPException 400
               (Detail (''Stream '' @ [CHR 0x27] @ ''audio'' @ [CHR 0x27]
                  @ '' not found in transmission''))"
      "''c1''" "''resend''" "''bogus''" "Some ''t1''" None None None None "''generated''"
      "HTTPException 400
                  (Detail (''X-Session-Type must be '' @ [CHR 0x27] @ ''stateful'' @ [CHR 0x27]
                     @ '' or '' @ [CHR 0x27] @ ''stateless'' @ [CHR 0x27]))"]
  by (simp add: example_lookup example_no_stream init_transmission_def parse_features_def
      strip_def isspace_def FeatureToggle_of_def)

subsection \<open>The missing report after a sequence of exchanges\<close>

lemma stored_after_exchange:
  "fst (storage_update s' (mutate_in_place tid s' store)) tid = Some s'"
  by (simp add: storage_update_def mutate_in_place_def)

lemma exchange_step:
  assumes "store tid = Some s" and "streams s sid = Some ss"
  shows "\<exists>s'. fst (transmit_chunk store tid (Some sid) (Some pid) None now now') tid = Some s'
     \<and> ttl_seconds s' = ttl_seconds s \<and> created_at s' = created_at s
     \<and> streams s' sid = Some (if ttl_expired s now then ss else record_received ss pid)"
  using transmit_chunk_addressed [of store tid s sid ss pid now now'] assms
  by (simp add: Let_def stored_after_exchange)

lemma ttl_expired_fields:
  "ttl_seconds s' = ttl_seconds s \<Longrightarrow> created_at s' = created_at s \<Longrightarrow>
   ttl_expired s' now = ttl_expired s now"
  by (simp add: ttl_expired_def split: option.splits)

lemma recorded_fields:
  "ttl_seconds s' = ttl_seconds s \<Longrightarrow> created_at s' = created_at s \<Longrightarrow>
   recorded s' reqs = recorded s reqs"
  by (simp add: recorded_def ttl_expired_fields [of s' s])

lemma exchange_chunks_stream:
  assumes "store tid = Some s" and "streams s sid = Some ss"
  shows "\<exists>s'. exchange_chunks store tid sid reqs tid = Some s'
     \<and> streams s' sid = Some (foldl record_received ss (recorded s reqs))"
  using assms
proof (induction reqs arbitrary: store s ss)
  case Nil
  then show ?case by (simp add: recorded_def)
next
  case (Cons req reqs)
  obtain pid now now' where req: "req = (pid, now, now')"
    by (cases req) auto
  obtain s1 where s1: "fst (transmit_chunk store tid (Some sid) (Some pid) None now now') tid = Some s1"
    "ttl_seconds s1 = ttl_seconds s" "created_at s1 = created_at s"
    "streams s1 sid = Some (if ttl_expired s now then ss else record_received ss pid)"
    using exchange_step [of store tid s sid ss pid now now'] Cons.prems by blast
  obtain s' where s': "exchange_chunks (fst (transmit_chunk store tid (Some sid) (Some pid) None now now'))
        tid sid reqs tid = Some s'"
    "streams s' sid = Some (foldl record_received
        (if ttl_expired s now then ss else record_received ss pid) (recorded s1 reqs))"
    using Cons.IH [of "fst (transmit_chunk store tid (Some sid) (Some pid) None now now')" s1
        "if ttl_expired s now then ss else record_received ss pid"] s1(1,4)
    by blast
  have r: "recorded s1 reqs = recorded s reqs"
    using s1(2,3) by (rule recorded_fields)
  show ?case
    using s' [unfolded r] by (simp add: req recorded_def)
qed

lemma five_chunks_report:
  "stream_status
       (foldl record_received
          \<lparr>id_ss = sid, received_chunks = {||}, total_chunks = tot\<rparr> [0, 1, 3, 3, 7])
     = \<lparr>received = [0, 1, 3, 7], missing = [2, 4, 5, 6], total_st = tot\<rparr>"
  by code_simp

lemma status_stream_report:
  assumes "store tid = Some s" and "streams s sid = Some ss"
  shows "\<exists>st. get_transmission_status store tid t = Inr st
     \<and> status_streams st sid = Some (stream_status ss)"
  using assms by (simp add: get_transmission_status_def storage_get_def get_status_def)

lemma recorded_no_ttl:
  "recorded (example_session None m c) reqs = map fst reqs"
  by (simp add: recorded_def ttl_expired_def example_fields split_beta)

text \<open>
  Claim C1. Take a stored session, one of its declared streams \<open>ss\<close>, and any sequence of
  chunk exchanges on that stream; each exchange that passes the expiry test records its
  chunk number. With \<open>R\<close> the set of numbers recorded so far (those of \<open>ss\<close> and those of
  the sequence), the status query then succeeds and its report for the stream has
  \<open>received\<close> the ascending list of the distinct members of \<open>R\<close>, and \<open>missing\<close> empty when
  \<open>R\<close> is empty and otherwise the ascending list of the integers from \<open>0\<close> to the
  greatest member of \<open>R\<close> that are not in \<open>R\<close>. One exchange records its chunk number in the
  stream the status reports, and recording a number twice is the same as recording it
  once. On a stream with nothing recorded, recording 0, 1, 3, 3, 7 gives received
  \<open>[0, 1, 3, 7]\<close> and missing \<open>[2, 4, 5, 6]\<close>.
\<close>

theorem missing_report_after_recording:
  assumes "store tid = Some s" and "streams s sid = Some ss"
  shows "(let R = fset (received_chunks ss) \<union> set (recorded s reqs)
      in \<exists>st rep.
           get_transmission_status (exchange_chunks store tid sid reqs) tid t = Inr st
           \<and> status_streams st sid = Some rep
           \<and> received rep = sorted_list_of_set R
           \<and> sorted (received rep) \<and> distinct (received rep) \<and> set (received rep) = R
           \<and> missing rep = (if R = {} then [] else filter (\<lambda>i. i \<notin> R) [0..Max R])
           \<and> total_st rep = total_chunks ss)
     \<and> (\<exists>st. get_transmission_status
                (fst (transmit_chunk store tid (Some sid) (Some n) None now now')) tid t
              = Inr st
            \<and> status_streams st sid
              = Some (stream_status (if ttl_expired s now then ss else record_received ss n)))
     \<and> record_received (record_received ss n) n = record_received ss n
     \<and> (received_chunks ss = {||} \<and> recorded s reqs = [0, 1, 3, 3, 7] \<longrightarrow>
          (\<exists>st. get_transmission_status (exchange_chunks store tid sid reqs) tid t = Inr st
             \<and> status_streams st sid
               = Some \<lparr>received = [0, 1, 3, 7], missing = [2, 4, 5, 6],
                        total_st = total_chunks ss\<rparr>))"
proof -
  let ?R = "fset (received_chunks ss) \<union> set (recorded s reqs)"
  let ?ss' = "foldl record_received ss (recorded s reqs)"
  obtain s' where s': "exchange_chunks store tid sid reqs tid = Some s'"
    "streams s' sid = Some ?ss'"
    using exchange_chunks_stream [of store tid s sid ss reqs] assms by blast
  obtain st where st: "get_transmission_status (exchange_chunks store tid sid reqs) tid t = Inr st"
    "status_streams st sid = Some (stream_status ?ss')"
    using status_stream_report [of "exchange_chunks store tid sid reqs" tid s' sid ?ss' t] s'
    by blast
  have R: "fset (received_chunks ?ss') = ?R"
    by (simp add: received_chunks_foldl fset_of_list.rep_eq)
  have e: "(received_chunks ?ss' = {||}) = (?R = {})"
    using R by (metis bot_fset.rep_eq fset_inject)
  have rec: "received (stream_status ?ss') = sorted_list_of_set ?R"
    by (simp add: stream_status_report [of ?ss'] R)
  have mis: "missing (stream_status ?ss') =
      (if ?R = {} then [] else filter (\<lambda>i. i \<notin> ?R) [0..Max ?R])"
    using e by (simp add: stream_status_report [of ?ss'] R)
  have tot: "total_st (stream_status ?ss') = total_chunks ss"
    by (simp add: stream_status_report [of ?ss'] total_chunks_foldl)
  have fin: "finite ?R" by simp
  have srt: "sorted (sorted_list_of_set ?R)" "distinct (sorted_list_of_set ?R)"
    "set (sorted_list_of_set ?R) = ?R"
    using fin by simp_all
  have a: "\<exists>st rep.
           get_transmission_status (exchange_chunks store tid sid reqs) tid t = Inr st
           \<and> status_streams st sid = Some rep
           \<and> received rep = sorted_list_of_set ?R
           \<and> sorted (received rep) \<and> distinct (received rep) \<and> set (received rep) = ?R
           \<and> missing rep = (if ?R = {} then [] else filter (\<lambda>i. i \<notin> ?R) [0..Max ?R])
           \<and> total_st rep = total_chunks ss"
    using st rec mis tot srt by (metis (no_types, lifting))
  obtain s1 where s1: "fst (transmit_chunk store tid (Some sid) (Some n) None now now') tid = Some s1"
    "streams s1 sid = Some (if ttl_expired s now then ss else record_received ss n)"
    using exchange_step [of store tid s sid ss n now now'] assms by blast
  have b: "\<exists>st. get_transmission_status
                (fst (transmit_chunk store tid (Some sid) (Some n) None now now')) tid t
              = Inr st
            \<and> status_streams st sid
              = Some (stream_status (if ttl_expired s now then ss else record_received ss n))"
    using status_stream_report
      [of "fst (transmit_chunk store tid (Some sid) (Some n) None now now')" tid s1 sid
        "if ttl_expired s now then ss else record_received ss n" t] s1
    by blast
  have c: "record_received (record_received ss n) n = record_received ss n"
    by (simp add: record_received_def)
  have d: "received_chunks ss = {||} \<and> recorded s reqs = [0, 1, 3, 3, 7] \<longrightarrow>
          (\<exists>st. get_transmission_status (exchange_chunks store tid sid reqs) tid t = Inr st
             \<and> status_streams st sid
               = Some \<lparr>received = [0, 1, 3, 7], missing = [2, 4, 5, 6],
                        total_st = total_chunks ss\<rparr>)"
  proof
    assume h: "received_chunks ss = {||} \<and> recorded s reqs = [0, 1, 3, 3, 7]"
    have ss: "ss = \<lparr>id_ss = id_ss ss, received_chunks = {||}, total_chunks = total_chunks ss\<rparr>"
      using h by simp
    have "stream_status
       (foldl record_received
          \<lparr>id_ss = id_ss ss, received_chunks = {||}, total_chunks = total_chunks ss\<rparr>
          [0, 1, 3, 3, 7])
     = \<lparr>received = [0, 1, 3, 7], missing = [2, 4, 5, 6], total_st = total_chunks ss\<rparr>"
      by (rule five_chunks_report)
    then have "stream_status ?ss'
     = \<lparr>received = [0, 1, 3, 7], missing = [2, 4, 5, 6], total_st = total_chunks ss\<rparr>"
      using h ss by simp
    then show "\<exists>st. get_transmission_status (exchange_chunks store tid sid reqs) tid t = Inr st
             \<and> status_streams st sid
               = Some \<lparr>received = [0, 1, 3, 7], missing = [2, 4, 5, 6],
                        total_st = total_chunks ss\<rparr>"
      using st by simp
  qed
  show ?thesis
    unfolding Let_def using a b c d by (intro conjI)
qed

theorem missing_report_after_recording_witness:
  "\<exists>st. get_transmission_status
          (exchange_chunks (example_store None None None) ''t1'' ''video''
             [(0, 102, 103), (1, 104, 105), (3, 106, 107), (3, 108, 109), (7, 110, 111)])
          ''t1'' 200 = Inr st
      \<and> status_streams st ''video''
        = Some \<lparr>received = [0, 1, 3, 7], missing = [2, 4, 5, 6], total_st = None\<rparr>"
  using missing_report_after_recording [of "example_store None None None" "''t1''" "example_session None None None"
      "''video''" "\<lparr>id_ss = ''video'', received_chunks = {||}, total_chunks = None\<rparr>"
      "[(0, 102, 103), (1, 104, 105), (3, 106, 107), (3, 108, 109), (7, 110, 111)]" 200
      0 102 103]
  by (simp add: example_lookup example_stream recorded_no_ttl)

section \<open>Negotiation\<close>

lemma foldl_append_filter:
  "foldl (\<lambda>enabled feature. if P feature then enabled @ [feature] else enabled) acc fs
   = acc @ filter P fs"
  by (induction fs arbitrary: acc) auto

lemma negotiate_features_filter:
  "negotiate_features fs = CORE # filter (\<lambda>f. f \<in> supported_features_for_poc) fs"
  by (simp add: negotiate_features_def foldl_append_filter)

lemma init_transmission_resume:
  assumes "parse_features xf = Inr fs"
    and "xt = ''stateful'' \<or> xt = ''stateless''"
    and "store tid = Some s" and "tid \<noteq> []"
  shows "init_transmission store cid xf xt (Some tid) xstr xttl xm xcs gid now now' =
     (fst (storage_update (s\<lparr>last_received_time := now\<rparr>)
             (mutate_in_place tid (s\<lparr>last_received_time := now\<rparr>) store)),
      Inr (Response 200
             (init_headers (s\<lparr>last_received_time := now\<rparr>) (negotiate_features fs)
                (parse_streams xstr))
             [] None))"
  using assms
  by (auto simp: init_transmission_def truthy_str_def storage_get_def Let_def)

lemma init_transmission_create:
  assumes "parse_features xf = Inr fs"
    and "xt = ''stateful'' \<or> xt = ''stateless''"
    and "\<not> truthy_str xid \<or> store (the xid) = None"
  shows "init_transmission store cid xf xt xid xstr xttl xm xcs gid now now' =
     (let ts = \<lparr>id_ts = (if truthy_str xid then the xid else gid), client_id = cid,
                streams = prepare_streams (parse_streams xstr),
                features_enabled = negotiate_features fs, ttl_seconds = xttl,
                created_at = now, last_received_time = now', session_type = xt,
                max_packet_size = xm, chunk_size = xcs\<rparr>
      in (storage_create ts store,
          Inr (Response 200 (init_headers ts (negotiate_features fs) (parse_streams xstr))
                 [] None)))"
  using assms
  by (auto simp: init_transmission_def storage_get_def Let_def)

lemma init_transmission_success:
  assumes "snd (init_transmission store cid xf xt xid xstr xttl xm xcs gid now now') = Inr r"
  shows "(\<exists>fs. parse_features xf = Inr fs) \<and> (xt = ''stateful'' \<or> xt = ''stateless'')"
  using assms
  by (auto simp: init_transmission_def Let_def split: sum.splits if_splits)

lemma stored_after_resume:
  "fst (storage_update s' (mutate_in_place tid s' store)) tid = Some s'"
  by (simp add: storage_update_def mutate_in_place_def)

lemma stored_after_resume_own_id:
  "id_ts s' = tid \<Longrightarrow>
   fst (storage_update s' (mutate_in_place tid s' store)) = store(tid \<mapsto> s')"
  by (simp add: storage_update_def mutate_in_place_def)

lemma init_headers_features:
  "map_of (init_headers ts en strs) ''X-Features-Enabled''
   = Some (join '','' (map feature_value en))"
  by (simp add: init_headers_def)

lemma init_headers_streams:
  "map_of (init_headers ts en strs) ''X-Accepted-Streams''
   = (if strs = [] then None else Some (join '','' (map stream_info_id strs)))"
  by (simp add: init_headers_def split: option.splits)

lemma init_transmission_headers:
  assumes "parse_features xf = Inr fs"
    and "snd (init_transmission store cid xf xt xid xstr xttl xm xcs gid now now') = Inr r"
  shows "\<exists>ts. resp_headers r = init_headers ts (negotiate_features fs) (parse_streams xstr)"
  using assms
  by (auto simp: init_transmission_def Let_def split: if_splits option.splits)

lemma parse_features_ttl_pull: "parse_features ''ttl,pull'' = Inr [TTL, PULL]"
  by (simp add: parse_features_def strip_def isspace_def FeatureToggle_of_def)

lemma parse_streams_audio: "parse_streams (Some ''audio'') = [StreamInfo ''audio'']"
  by (simp add: parse_streams_def strip_def isspace_def)

lemma example_resume:
  "init_transmission (example_store None None None) ''c2'' ''ttl,pull'' ''stateless''
     (Some ''t1'') (Some ''audio'') (Some 5) (Some 9) (Some 7) ''generated'' 200 201
   = ([''t1'' \<mapsto> (example_session None None None)\<lparr>last_received_time := 200\<rparr>],
      Inr (Response 200
             [(''X-Transmission-ID'', ''t1''), (''X-Features-Enabled'', ''core,ttl,pull''),
              (''X-Accepted-Streams'', ''audio'')] [] None))"
  using init_transmission_resume [of "''ttl,pull''" "[TTL, PULL]" "''stateless''"
      "example_store None None None" "''t1''" "example_session None None None" "''c2''"
      "Some ''audio''" "Some 5" "Some 9" "Some 7" "''generated''" 200 201]
  by (simp add: parse_features_ttl_pull parse_streams_audio example_lookup
      stored_after_resume_own_id example_fields negotiate_features_filter
      supported_features_for_poc_def init_headers_def example_store_eq)

lemma example_create:
  "init_transmission Map.empty ''c1'' ''resend, metrics'' ''stateful'' (Some ''t1'')
     (Some ''video'') t m c ''generated'' 100 101
   = (example_store t m c,
      Inr (Response 200 (init_headers (example_session t m c) [CORE, RESEND] [StreamInfo ''video''])
             [] None))"
  by (simp add: example_store_eq)
     (simp add: init_transmission_def parse_features_example
      parse_streams_example negotiate_features_example truthy_str_def storage_get_def
      prepare_streams_def storage_create_def example_session_def Let_def)

text \<open>
  Claim C7. A negotiation that names an identifier under which the store holds a session
  \<open>s\<close>, and that succeeds, leaves under that identifier the session \<open>s\<close> with its
  \<open>last_received_time\<close> set to the negotiation's clock reading and nothing else changed:
  enabled features, TTL, maximum packet size, chunk size, streams, client identifier,
  session type, creation time and identifier are those of \<open>s\<close>, whatever the request
  carries. When \<open>s\<close> is stored under its own identifier, as every session the handlers
  create is, no other entry of the store changes either.
\<close>

theorem resumption_refreshes_last_activity_only:
  assumes "store tid = Some s" and "tid \<noteq> []"
    and "snd (init_transmission store cid xf xt (Some tid) xstr xttl xm xcs gid now now') = Inr r"
  shows "fst (init_transmission store cid xf xt (Some tid) xstr xttl xm xcs gid now now') tid
       = Some (s\<lparr>last_received_time := now\<rparr>)
     \<and> (\<exists>s'. fst (init_transmission store cid xf xt (Some tid) xstr xttl xm xcs gid now now') tid
               = Some s'
            \<and> last_received_time s' = now
            \<and> features_enabled s' = features_enabled s
            \<and> ttl_seconds s' = ttl_seconds s
            \<and> max_packet_size s' = max_packet_size s
            \<and> chunk_size s' = chunk_size s
            \<and> streams s' = streams s
            \<and> client_id s' = client_id s
            \<and> session_type s' = session_type s
            \<and> created_at s' = created_at s
            \<and> id_ts s' = id_ts s)
     \<and> (id_ts s = tid \<longrightarrow>
          fst (init_transmission store cid xf xt (Some tid) xstr xttl xm xcs gid now now')
          = store(tid \<mapsto> s\<lparr>last_received_time := now\<rparr>))"
proof -
  obtain fs where fs: "parse_features xf = Inr fs"
    and xt: "xt = ''stateful'' \<or> xt = ''stateless''"
    using init_transmission_success [OF assms(3)] by blast
  have eq: "init_transmission store cid xf xt (Some tid) xstr xttl xm xcs gid now now' =
     (fst (storage_update (s\<lparr>last_received_time := now\<rparr>)
             (mutate_in_place tid (s\<lparr>last_received_time := now\<rparr>) store)),
      Inr (Response 200
             (init_headers (s\<lparr>last_received_time := now\<rparr>) (negotiate_features fs)
                (parse_streams xstr))
             [] None))"
    using fs xt assms(1,2) by (rule init_transmission_resume)
  have a: "fst (init_transmission store cid xf xt (Some tid) xstr xttl xm xcs gid now now') tid
       = Some (s\<lparr>last_received_time := now\<rparr>)"
    unfolding eq by (simp add: stored_after_resume)
  have b: "id_ts s = tid \<longrightarrow>
          fst (init_transmission store cid xf xt (Some tid) xstr xttl xm xcs gid now now')
          = store(tid \<mapsto> s\<lparr>last_received_time := now\<rparr>)"
    unfolding eq by (simp add: stored_after_resume_own_id)
  show ?thesis using a b by simp
qed

theorem resumption_refreshes_last_activity_only_witness:
  "fst (init_transmission (example_store None None None) ''c2'' ''ttl,pull'' ''stateless''
          (Some ''t1'') (Some ''audio'') (Some 5) (Some 9) (Some 7) ''generated'' 200 201)
   = (example_store None None None)
       (''t1'' \<mapsto> (example_session None None None)\<lparr>last_received_time := 200\<rparr>)"
  using resumption_refreshes_last_activity_only [of "example_store None None None" "''t1''" "example_session None None None"
      "''c2''" "''ttl,pull''" "''stateless''" "Some ''audio''" "Some 5" "Some 9" "Some 7"
      "''generated''" 200 201
      "Response 200
             [(''X-Transmission-ID'', ''t1''), (''X-Features-Enabled'', ''core,ttl,pull''),
              (''X-Accepted-Streams'', ''audio'')] [] None"]
    example_resume
  by (simp add: example_lookup example_fields)

lemma split_comma_comma_free: "CHR '','' \<notin> set x \<Longrightarrow> split_comma x = [x]"
  by (induction x) auto

lemma split_comma_append:
  "CHR '','' \<notin> set x \<Longrightarrow> split_comma (x @ CHR '','' # rest) = x # split_comma rest"
  by (induction x) auto

lemma split_comma_join:
  "xs \<noteq> [] \<Longrightarrow> \<forall>x\<in>set xs. CHR '','' \<notin> set x \<Longrightarrow> split_comma (join '','' xs) = xs"
proof (induction "'',''" xs rule: join.induct)
  case 1
  then show ?case by simp
next
  case (2 x)
  then show ?case by (simp add: split_comma_comma_free)
next
  case (3 x y ys)
  then show ?case
    using split_comma_append [of x "join '','' (y # ys)"] by simp
qed

lemma feature_value_comma_free: "CHR '','' \<notin> set (feature_value f)"
  by (cases f) simp_all

lemma feature_value_nonempty: "feature_value f \<noteq> []"
  by (cases f) simp_all

lemma feature_value_inj: "inj feature_value"
proof (rule injI)
  fix x y
  assume "feature_value x = feature_value y"
  then show "x = y" by (cases x; cases y) simp_all
qed

lemma render_features_eq:
  "(join '','' (map feature_value (x # xs)) = join '','' (map feature_value ys))
   = (x # xs = ys)"
proof
  assume eq: "join '','' (map feature_value (x # xs)) = join '','' (map feature_value ys)"
  have l: "split_comma (join '','' (map feature_value (x # xs))) = map feature_value (x # xs)"
    by (rule split_comma_join) (auto simp: feature_value_comma_free)
  show "x # xs = ys"
  proof (cases ys)
    case Nil
    then have "split_comma (join '','' (map feature_value ys)) = [[]]" by simp
    then have "map feature_value (x # xs) = [[]]" using l eq by simp
    then have "feature_value x = []" by simp
    then show ?thesis using feature_value_nonempty [of x] by simp
  next
    case (Cons y ys')
    have "split_comma (join '','' (map feature_value ys)) = map feature_value ys"
      unfolding Cons by (rule split_comma_join) (auto simp: feature_value_comma_free)
    then have "map feature_value (x # xs) = map feature_value ys"
      using l eq by simp
    then show ?thesis
      using feature_value_inj by (metis inj_map_eq_map)
  qed
next
  assume "x # xs = ys"
  then show "join '','' (map feature_value (x # xs)) = join '','' (map feature_value ys)"
    by simp
qed

lemma split_comma_parts: "w \<in> set (split_comma s) \<Longrightarrow> CHR '','' \<notin> set w"
proof (induction s arbitrary: w)
  case Nil
  then show ?case by simp
next
  case (Cons c cs)
  then show ?case
    by (cases "split_comma cs") (auto split: if_splits)
qed

lemma strip_subset: "set (strip w) \<subseteq> set w"
proof -
  have "set (rev (dropWhile isspace (rev (dropWhile isspace w))))
      \<subseteq> set (dropWhile isspace w)"
    using set_dropWhileD [of _ isspace "rev (dropWhile isspace w)"] by auto
  moreover have "set (dropWhile isspace w) \<subseteq> set w"
    using set_dropWhileD [of _ isspace w] by auto
  ultimately show ?thesis unfolding strip_def by blast
qed

lemma parse_streams_comma_free:
  "x \<in> set (map stream_info_id (parse_streams xstr)) \<Longrightarrow> CHR '','' \<notin> set x"
  using split_comma_parts strip_subset
  by (fastforce simp: parse_streams_def split: option.splits if_splits)

lemma accepted_streams_listed:
  assumes "parse_streams xstr \<noteq> []"
  shows "split_comma (join '','' (map stream_info_id (parse_streams xstr)))
       = map stream_info_id (parse_streams xstr)"
  using assms parse_streams_comma_free [of _ xstr]
  by (intro split_comma_join) auto

lemma parse_features_resend_fec: "parse_features ''resend,fec'' = Inr [RESEND, FEC]"
  by (simp add: parse_features_def strip_def isspace_def FeatureToggle_of_def)

text \<open>
  Claim C9, as amended. When a negotiation resumes a stored session \<open>s\<close> and succeeds, the
  response is built from the request: its \<^verbatim>\<open>X-Features-Enabled\<close> header is \<^verbatim>\<open>core\<close>
  followed by the features requested in this call that the server supports, and its
  \<^verbatim>\<open>X-Accepted-Streams\<close> header is the stream list of this call (absent when the call
  names no stream), while the stored session keeps the features and the streams of \<open>s\<close>.
  The headers disagree with the stored state under these conditions: the feature header is
  the rendering of the stored feature list exactly when \<open>CORE\<close> followed by the supported
  features of the request, in request order, is that list; and the streams header lists
  exactly the streams of the request, so when the request names a stream \<open>s\<close> does not
  declare, the header lists a stream the stored session does not have.
\<close>

theorem resumption_response_from_request:
  "store tid = Some s \<and> tid \<noteq> [] \<and> parse_features xf = Inr requested
      \<and> snd (init_transmission store cid xf xt (Some tid) xstr xttl xm xcs gid now now') = Inr r
    \<longrightarrow> map_of (resp_headers r) ''X-Features-Enabled''
          = Some (join '','' (map feature_value
                    (CORE # filter (\<lambda>f. f \<in> supported_features_for_poc) requested)))
        \<and> map_of (resp_headers r) ''X-Accepted-Streams''
          = (if parse_streams xstr = [] then None
             else Some (join '','' (map stream_info_id (parse_streams xstr))))
        \<and> (\<exists>s'. fst (init_transmission store cid xf xt (Some tid) xstr xttl xm xcs gid now now')
                    tid = Some s'
                 \<and> features_enabled s' = features_enabled s \<and> streams s' = streams s)
        \<and> (map_of (resp_headers r) ''X-Features-Enabled''
             = Some (join '','' (map feature_value (features_enabled s))))
          = (CORE # filter (\<lambda>f. f \<in> supported_features_for_poc) requested
             = features_enabled s)
        \<and> (\<forall>h. map_of (resp_headers r) ''X-Accepted-Streams'' = Some h
               \<longrightarrow> split_comma h = map stream_info_id (parse_streams xstr))
        \<and> ((\<exists>x. x \<in> set (parse_streams xstr) \<and> streams s (stream_info_id x) = None)
             \<longrightarrow> (\<exists>h x. map_of (resp_headers r) ''X-Accepted-Streams'' = Some h
                        \<and> x \<in> set (split_comma h) \<and> streams s x = None))"
proof
  assume H: "store tid = Some s \<and> tid \<noteq> [] \<and> parse_features xf = Inr requested
      \<and> snd (init_transmission store cid xf xt (Some tid) xstr xttl xm xcs gid now now') = Inr r"
  then have h: "store tid = Some s" "tid \<noteq> []" "parse_features xf = Inr requested"
      "snd (init_transmission store cid xf xt (Some tid) xstr xttl xm xcs gid now now') = Inr r"
    by simp_all
  let ?E = "CORE # filter (\<lambda>f. f \<in> supported_features_for_poc) requested"
  let ?ids = "map stream_info_id (parse_streams xstr)"
  have xt: "xt = ''stateful'' \<or> xt = ''stateless''"
    using init_transmission_success [OF h(4)] by blast
  obtain ts where ts: "resp_headers r
        = init_headers ts (negotiate_features requested) (parse_streams xstr)"
    using init_transmission_headers [OF h(3,4)] by blast
  have eq: "init_transmission store cid xf xt (Some tid) xstr xttl xm xcs gid now now' =
       (fst (storage_update (s\<lparr>last_received_time := now\<rparr>)
               (mutate_in_place tid (s\<lparr>last_received_time := now\<rparr>) store)),
        Inr (Response 200
               (init_headers (s\<lparr>last_received_time := now\<rparr>) (negotiate_features requested)
                  (parse_streams xstr))
               [] None))"
    using h(3) xt h(1,2) by (rule init_transmission_resume)
  have a: "map_of (resp_headers r) ''X-Features-Enabled''
          = Some (join '','' (map feature_value ?E))"
    unfolding ts by (simp add: init_headers_features negotiate_features_filter)
  have b: "map_of (resp_headers r) ''X-Accepted-Streams''
          = (if parse_streams xstr = [] then None else Some (join '','' ?ids))"
    unfolding ts by (rule init_headers_streams)
  have c: "\<exists>s'. fst (init_transmission store cid xf xt (Some tid) xstr xttl xm xcs gid now now')
                    tid = Some s'
                 \<and> features_enabled s' = features_enabled s \<and> streams s' = streams s"
    unfolding eq by (simp add: stored_after_resume)
  have d: "(map_of (resp_headers r) ''X-Features-Enabled''
             = Some (join '','' (map feature_value (features_enabled s))))
          = (?E = features_enabled s)"
    unfolding a using render_features_eq [of CORE _ "features_enabled s"] by simp
  have e: "\<forall>h. map_of (resp_headers r) ''X-Accepted-Streams'' = Some h
               \<longrightarrow> split_comma h = ?ids"
    unfolding b using accepted_streams_listed [of xstr] by simp
  have f: "(\<exists>x. x \<in> set (parse_streams xstr) \<and> streams s (stream_info_id x) = None)
             \<longrightarrow> (\<exists>h x. map_of (resp_headers r) ''X-Accepted-Streams'' = Some h
                        \<and> x \<in> set (split_comma h) \<and> streams s x = None)"
  proof
    assume "\<exists>x. x \<in> set (parse_streams xstr) \<and> streams s (stream_info_id x) = None"
    then obtain x where x: "x \<in> set (parse_streams xstr)" "streams s (stream_info_id x) = None"
      by blast
    then have ne: "parse_streams xstr \<noteq> []" by auto
    have "map_of (resp_headers r) ''X-Accepted-Streams'' = Some (join '','' ?ids)"
      using b ne by simp
    moreover have "stream_info_id x \<in> set (split_comma (join '','' ?ids))"
      using accepted_streams_listed [OF ne] x(1) by simp
    ultimately show "\<exists>h x. map_of (resp_headers r) ''X-Accepted-Streams'' = Some h
                        \<and> x \<in> set (split_comma h) \<and> streams s x = None"
      using x(2) by blast
  qed
  show "map_of (resp_headers r) ''X-Features-Enabled''
          = Some (join '','' (map feature_value ?E))
        \<and> map_of (resp_headers r) ''X-Accepted-Streams''
          = (if parse_streams xstr = [] then None else Some (join '','' ?ids))
        \<and> (\<exists>s'. fst (init_transmission store cid xf xt (Some tid) xstr xttl xm xcs gid now now')
                    tid = Some s'
                 \<and> features_enabled s' = features_enabled s \<and> streams s' = streams s)
        \<and> (map_of (resp_headers r) ''X-Features-Enabled''
             = Some (join '','' (map feature_value (features_enabled s))))
          = (?E = features_enabled s)
        \<and> (\<forall>h. map_of (resp_headers r) ''X-Accepted-Streams'' = Some h
               \<longrightarrow> split_comma h = ?ids)
        \<and> ((\<exists>x. x \<in> set (parse_streams xstr) \<and> streams s (stream_info_id x) = None)
             \<longrightarrow> (\<exists>h x. map_of (resp_headers r) ''X-Accepted-Streams'' = Some h
                        \<and> x \<in> set (split_comma h) \<and> streams s x = None))"
    using a b c d e f by (intro conjI)
qed

theorem resumption_response_from_request_witness:
  "snd (init_transmission (example_store None None None) ''c2'' ''ttl,pull'' ''stateless''
          (Some ''t1'') (Some ''audio'') (Some 5) (Some 9) (Some 7) ''generated'' 200 201)
     = Inr (Response 200
              [(''X-Transmission-ID'', ''t1''), (''X-Features-Enabled'', ''core,ttl,pull''),
               (''X-Accepted-Streams'', ''audio'')] [] None)
   \<and> map_of [(''X-Transmission-ID'', ''t1''), (''X-Features-Enabled'', ''core,ttl,pull''),
              (''X-Accepted-Streams'', ''audio'')] ''X-Features-Enabled''
     \<noteq> Some (join '','' (map feature_value (features_enabled (example_session None None None))))
   \<and> features_enabled (example_session None None None) = [CORE, RESEND]
   \<and> split_comma ''audio'' = [''audio'']
   \<and> streams (example_session None None None) ''audio'' = None"
  using resumption_response_from_request [of "example_store None None None" "''t1''" "example_session None None None"
      "''ttl,pull''" "[TTL, PULL]" "''c2''" "''stateless''" "Some ''audio''" "Some 5" "Some 9"
      "Some 7" "''generated''" 200 201
      "Response 200
             [(''X-Transmission-ID'', ''t1''), (''X-Features-Enabled'', ''core,ttl,pull''),
              (''X-Accepted-Streams'', ''audio'')] [] None"]
    example_resume
  by (simp add: example_lookup parse_features_ttl_pull parse_streams_audio
      supported_features_for_poc_def example_session_def)

text \<open>
  The claim as stated fails for a request that differs from the original only in features
  the server does not support. The example session was created with the request
  \<^verbatim>\<open>resend, metrics\<close> and the stream \<^verbatim>\<open>video\<close>. Resuming it with \<^verbatim>\<open>resend,fec\<close> and
  \<^verbatim>\<open>video\<close> declares different features, and the response headers \<^verbatim>\<open>core,resend\<close> and
  \<^verbatim>\<open>video\<close> agree with the stored features and streams.
\<close>

theorem resumption_headers_agree_counterexample:
  "parse_features ''resend, metrics'' = Inr [RESEND, METRICS]
   \<and> parse_features ''resend,fec'' = Inr [RESEND, FEC]
   \<and> [RESEND, FEC] \<noteq> [RESEND, METRICS]
   \<and> init_transmission (example_store None None None) ''c1'' ''resend,fec'' ''stateful''
        (Some ''t1'') (Some ''video'') None None None ''generated'' 200 201
      = ([''t1'' \<mapsto> (example_session None None None)\<lparr>last_received_time := 200\<rparr>],
         Inr (Response 200
                [(''X-Transmission-ID'', ''t1''), (''X-Features-Enabled'', ''core,resend''),
                 (''X-Accepted-Streams'', ''video'')] [] None))
   \<and> join '','' (map feature_value
        (features_enabled ((example_session None None None)\<lparr>last_received_time := 200\<rparr>)))
      = ''core,resend''
   \<and> dom (streams ((example_session None None None)\<lparr>last_received_time := 200\<rparr>))
      = {''video''}"
  using init_transmission_resume [of "''resend,fec''" "[RESEND, FEC]" "''stateful''"
      "example_store None None None" "''t1''" "example_session None None None" "''c1''"
      "Some ''video''" None None None "''generated''" 200 201]
  by (simp add: parse_features_resend_fec parse_features_example parse_streams_example
      example_lookup stored_after_resume_own_id example_fields negotiate_features_filter
      supported_features_for_poc_def init_headers_def example_store_eq)
     (simp add: example_session_def)

text \<open>
  Claim C2, as amended. For every successful negotiation, the enabled-feature list
  computed for the request, which the response returns in \<^verbatim>\<open>X-Features-Enabled\<close>,
  contains \<open>CORE\<close>, and any other feature is in it exactly when the request asks for it
  and the server's fixed supported set has it; so it lies within the supported set
  together with \<open>CORE\<close>. When the negotiation creates the session (no identifier given,
  or none stored under it), this list is the session's enabled-feature set. When it
  resumes a stored session, the session keeps the set it had. In both cases, if every
  stored session's set contained \<open>CORE\<close> and lay within the supported set together with
  \<open>CORE\<close> before the call, so does every stored session's set after it.
\<close>

theorem negotiated_features:
  assumes "parse_features xf = Inr requested"
    and "snd (init_transmission store cid xf xt xid xstr xttl xm xcs gid now now') = Inr r"
  shows "CORE \<in> set (negotiate_features requested)
     \<and> (\<forall>f. f \<noteq> CORE \<longrightarrow>
           (f \<in> set (negotiate_features requested))
           = (f \<in> set requested \<and> f \<in> supported_features_for_poc))
     \<and> set (negotiate_features requested)
         \<subseteq> insert CORE ((set requested \<union> supported_features_for_poc)
                          \<inter> supported_features_for_poc)
     \<and> map_of (resp_headers r) ''X-Features-Enabled''
         = Some (join '','' (map feature_value (negotiate_features requested)))
     \<and> (\<not> truthy_str xid \<or> store (the xid) = None \<longrightarrow>
          (\<exists>s'. fst (init_transmission store cid xf xt xid xstr xttl xm xcs gid now now')
                   (if truthy_str xid then the xid else gid) = Some s'
                \<and> features_enabled s' = negotiate_features requested))
     \<and> (truthy_str xid \<and> store (the xid) = Some s \<longrightarrow>
          (\<exists>s'. fst (init_transmission store cid xf xt xid xstr xttl xm xcs gid now now')
                   (the xid) = Some s'
                \<and> features_enabled s' = features_enabled s))
     \<and> ((\<forall>k s0. store k = Some s0 \<longrightarrow> features_within_supported s0) \<longrightarrow>
          (\<forall>k s1. fst (init_transmission store cid xf xt xid xstr xttl xm xcs gid now now') k
                     = Some s1 \<longrightarrow> features_within_supported s1))"
proof -
  have xt: "xt = ''stateful'' \<or> xt = ''stateless''"
    using init_transmission_success [OF assms(2)] by blast
  have a: "CORE \<in> set (negotiate_features requested)"
    by (simp add: negotiate_features_filter)
  have b: "\<forall>f. f \<noteq> CORE \<longrightarrow>
           (f \<in> set (negotiate_features requested))
           = (f \<in> set requested \<and> f \<in> supported_features_for_poc)"
    by (auto simp: negotiate_features_filter)
  have c: "set (negotiate_features requested)
         \<subseteq> insert CORE ((set requested \<union> supported_features_for_poc)
                          \<inter> supported_features_for_poc)"
    by (auto simp: negotiate_features_filter)
  obtain ts where ts: "resp_headers r
        = init_headers ts (negotiate_features requested) (parse_streams xstr)"
    using init_transmission_headers [OF assms] by blast
  have d: "map_of (resp_headers r) ''X-Features-Enabled''
         = Some (join '','' (map feature_value (negotiate_features requested)))"
    unfolding ts by (rule init_headers_features)
  have e: "\<not> truthy_str xid \<or> store (the xid) = None \<longrightarrow>
          (\<exists>s'. fst (init_transmission store cid xf xt xid xstr xttl xm xcs gid now now')
                   (if truthy_str xid then the xid else gid) = Some s'
                \<and> features_enabled s' = negotiate_features requested)"
  proof
    assume n: "\<not> truthy_str xid \<or> store (the xid) = None"
    show "\<exists>s'. fst (init_transmission store cid xf xt xid xstr xttl xm xcs gid now now')
                   (if truthy_str xid then the xid else gid) = Some s'
                \<and> features_enabled s' = negotiate_features requested"
      using init_transmission_create
        [of xf requested xt xid store cid xstr xttl xm xcs gid now now'] assms(1) xt n
      by (simp add: Let_def storage_create_def)
  qed
  have f: "truthy_str xid \<and> store (the xid) = Some s \<longrightarrow>
          (\<exists>s'. fst (init_transmission store cid xf xt xid xstr xttl xm xcs gid now now')
                   (the xid) = Some s'
                \<and> features_enabled s' = features_enabled s)"
  proof
    assume h: "truthy_str xid \<and> store (the xid) = Some s"
    then obtain tid where tid: "xid = Some tid" "tid \<noteq> []" "store tid = Some s"
      by (auto simp: truthy_str_def split: option.splits)
    have eq: "init_transmission store cid xf xt (Some tid) xstr xttl xm xcs gid now now' =
       (fst (storage_update (s\<lparr>last_received_time := now\<rparr>)
               (mutate_in_place tid (s\<lparr>last_received_time := now\<rparr>) store)),
        Inr (Response 200
               (init_headers (s\<lparr>last_received_time := now\<rparr>) (negotiate_features requested)
                  (parse_streams xstr))
               [] None))"
      using assms(1) xt tid(3,2) by (rule init_transmission_resume)
    show "\<exists>s'. fst (init_transmission store cid xf xt xid xstr xttl xm xcs gid now now')
                   (the xid) = Some s'
                \<and> features_enabled s' = features_enabled s"
      unfolding tid(1) eq by (simp add: stored_after_resume)
  qed
  have g: "(\<forall>k s0. store k = Some s0 \<longrightarrow> features_within_supported s0) \<longrightarrow>
          (\<forall>k s1. fst (init_transmission store cid xf xt xid xstr xttl xm xcs gid now now') k
                     = Some s1 \<longrightarrow> features_within_supported s1)"
    using assms(1) xt
    by (auto simp: init_transmission_def Let_def storage_create_def storage_update_def
        mutate_in_place_def storage_get_def features_within_supported_def
        negotiate_features_filter
        split: option.splits if_splits)
  show ?thesis using a b c d e f g by (intro conjI)
qed

theorem negotiated_features_witness:
  "RESEND \<in> set (negotiate_features [RESEND, METRICS])
   \<and> METRICS \<notin> set (negotiate_features [RESEND, METRICS])
   \<and> CORE \<in> set (negotiate_features [RESEND, METRICS])
   \<and> example_store None None None ''t1'' = Some (example_session None None None)
   \<and> features_enabled (example_session None None None) = negotiate_features [RESEND, METRICS]"
  using negotiated_features [of "''resend, metrics''" "[RESEND, METRICS]" Map.empty "''c1''" "''stateful''"
      "Some ''t1''" "Some ''video''" None None None "''generated''" 100 101
      "Response 200 (init_headers (example_session None None None) [CORE, RESEND]
         [StreamInfo ''video'']) [] None"]
    example_create [of None None None]
  by (simp add: parse_features_example example_lookup supported_features_for_poc_def
      truthy_str_def negotiate_features_example example_fields)

text \<open>
  The claim as stated fails on a resumption. The example session was created with the
  features \<^verbatim>\<open>core,resend\<close>. A negotiation under its identifier that requests \<^verbatim>\<open>ttl,pull\<close>
  succeeds, and the session it results in still has \<^verbatim>\<open>core,resend\<close>: \<open>TTL\<close> is requested
  and supported but not enabled in it, and \<open>RESEND\<close> is enabled in it but not requested.
\<close>

theorem resumed_session_features_counterexample:
  "parse_features ''ttl,pull'' = Inr [TTL, PULL]
   \<and> TTL \<in> supported_features_for_poc
   \<and> init_transmission (example_store None None None) ''c2'' ''ttl,pull'' ''stateless''
        (Some ''t1'') (Some ''audio'') (Some 5) (Some 9) (Some 7) ''generated'' 200 201
      = ([''t1'' \<mapsto> (example_session None None None)\<lparr>last_received_time := 200\<rparr>],
         Inr (Response 200
                [(''X-Transmission-ID'', ''t1''), (''X-Features-Enabled'', ''core,ttl,pull''),
                 (''X-Accepted-Streams'', ''audio'')] [] None))
   \<and> features_enabled ((example_session None None None)\<lparr>last_received_time := 200\<rparr>)
      = [CORE, RESEND]
   \<and> TTL \<notin> set [CORE, RESEND]
   \<and> RESEND \<notin> set [TTL, PULL]"
  using example_resume parse_features_ttl_pull
  by (simp add: supported_features_for_poc_def example_session_def)

end
